theory Spec2Isabelle
  imports Complex_Main "HOL-Library.Char_ord" "HOL-Library.List_Lexorder"
    "HOL-Library.Product_Lexorder" "HOL-Library.Option_ord" "HOL-Library.Multiset"
begin

section \<open>Values crossing the JavaScript boundary\<close>

text \<open>
  The ledger backend keeps one SQLite file per (user, year). The class
  \<open>DatabaseManager\<close> caches one open \<open>sqlite3.Database\<close> object per shard key and
  the Express routes run their SQL through that object. The development below embeds
  the manager, the SQL statements of the routes and the routes themselves.

  Numbers are exact rationals (the rounding of IEEE doubles is not modelled); strings are
  byte lists. A request field is absent (\<open>None\<close>) or carries a value of its JSON type.
  Functions of the JavaScript runtime and of SQLite whose code is not part of the
  repository (\<open>parseInt\<close>, \<open>new Date(s).getFullYear()\<close>, \<open>strftime\<close>, \<open>DATE\<close>) are fields
  of the record \<open>runtime\<close>: every theorem holds for any implementation of them.
\<close>

definition digit_char :: "nat \<Rightarrow> char" where
  "digit_char d = ''0123456789'' ! d"

text \<open>Decimal rendering of a non-negative integer, as in a template literal.\<close>

fun show_nat :: "nat \<Rightarrow> string" where
  "show_nat n =
     (if n < 10 then [digit_char n] else show_nat (n div 10) @ [digit_char (n mod 10)])"

declare show_nat.simps [simp del]

definition show_int :: "int \<Rightarrow> string" where
  "show_int i = (if i < 0 then CHR ''-'' # show_nat (nat (- i)) else show_nat (nat i))"

text \<open>
  The year handed to the manager is a number (\<open>getFullYear()\<close>, possibly \<open>NaN\<close>) or
  the raw string of \<open>req.query.year\<close> / \<open>req.params.year\<close>.
\<close>

datatype year_value = YearNum int | YearNaN | YearStr string

fun year_text :: "year_value \<Rightarrow> string" where
  "year_text (YearNum n) = show_int n"
| "year_text YearNaN = ''NaN''"
| "year_text (YearStr s) = s"

record runtime =
  js_parseInt :: "string \<Rightarrow> int option"
  js_getFullYear :: "string \<Rightarrow> int option"
  sql_strftime_Y :: "string \<Rightarrow> string option"
  sql_strftime_Ym :: "string \<Rightarrow> string option"
  sql_date :: "string \<Rightarrow> string option"

text \<open>
  What the environment contributes to one call: whether (and at which statement) the
  schema script hits a storage error, SQLite's \<open>CURRENT_TIMESTAMP\<close>, \<open>Date.now()\<close>
  and \<open>new Date().getFullYear()\<close>.
\<close>

record env =
  exec_fails_at :: "nat option"
  current_timestamp :: string
  date_now :: nat
  current_year :: int

section \<open>One shard's SQLite store\<close>

record category_row =
  cat_id :: int
  cat_name :: string
  cat_type :: string
  cat_is_default :: int
  cat_created_at :: string
  cat_updated_at :: string

record transaction_row =
  txn_id :: int
  txn_amount :: rat
  txn_date :: string
  txn_type :: string
  txn_category_id :: int
  txn_description :: string
  txn_created_at :: string
  txn_updated_at :: string

text \<open>
  A table is \<open>None\<close> until its \<open>CREATE TABLE\<close> has run. The two counters are the
  \<open>sqlite_sequence\<close> entries of the \<open>AUTOINCREMENT\<close> keys. An index is recorded by
  name, table and column.
\<close>

record store =
  categories_tbl :: "category_row list option"
  transactions_tbl :: "transaction_row list option"
  categories_seq :: int
  transactions_seq :: int
  indexes :: "(string \<times> string \<times> string) list"

definition empty_store :: store where
  "empty_store = \<lparr>categories_tbl = None, transactions_tbl = None,
     categories_seq = 0, transactions_seq = 0, indexes = []\<rparr>"

datatype sql_error = NoSuchTable string | CheckFailed string | IoError

definition valid_type :: "string \<Rightarrow> bool" where
  "valid_type t \<longleftrightarrow> t = ''income'' \<or> t = ''expense''"

definition max_rowid :: "int list \<Rightarrow> int" where
  "max_rowid ids = fold max ids 0"

subsection \<open>The schema script of \<open>initializeSchema\<close>\<close>

datatype statement =
    CreateTableCategories
  | CreateTableTransactions
  | InsertOrIgnoreCategories "(int \<times> string \<times> string \<times> int) list"
  | CreateIndex string string string

definition default_categories :: "(int \<times> string \<times> string \<times> int) list" where
  "default_categories =
    [(1, ''Monthly Fund'', ''income'', 1),
     (2, ''Special Fund'', ''income'', 1),
     (3, ''Donation'', ''income'', 1),
     (4, ''Personal Money'', ''income'', 1),
     (5, ''Bank Loan'', ''income'', 1),
     (6, ''Borrowed Money'', ''income'', 1),
     (7, ''Others'', ''income'', 1),
     (8, ''Employee Salary'', ''expense'', 1),
     (9, ''Foods & Treats'', ''expense'', 1),
     (10, ''Conveyances'', ''expense'', 1),
     (11, ''Purchase'', ''expense'', 1),
     (12, ''Rents'', ''expense'', 1),
     (13, ''Utility Bills'', ''expense'', 1),
     (14, ''Others'', ''expense'', 1)]"

definition schema :: "statement list" where
  "schema =
    [CreateTableCategories,
     CreateTableTransactions,
     InsertOrIgnoreCategories default_categories,
     CreateIndex ''idx_transactions_date'' ''transactions'' ''date'',
     CreateIndex ''idx_transactions_type'' ''transactions'' ''type'',
     CreateIndex ''idx_transactions_category'' ''transactions'' ''category_id'',
     CreateIndex ''idx_categories_type'' ''categories'' ''type'']"

text \<open>
  One row of \<open>INSERT OR IGNORE INTO categories (id, name, type, is_default)\<close>: a row
  whose id is taken, or whose type fails the CHECK, is skipped; otherwise it is added
  with both timestamps defaulted and the sequence raised to its id.
\<close>

definition seed_row :: "string \<Rightarrow> int \<times> string \<times> string \<times> int \<Rightarrow> category_row" where
  "seed_row ts r =
     (case r of (i, n, t, d) \<Rightarrow>
        \<lparr>cat_id = i, cat_name = n, cat_type = t, cat_is_default = d,
         cat_created_at = ts, cat_updated_at = ts\<rparr>)"

definition insert_or_ignore_category ::
  "string \<Rightarrow> int \<times> string \<times> string \<times> int \<Rightarrow> category_row list \<times> int
     \<Rightarrow> category_row list \<times> int" where
  "insert_or_ignore_category ts r acc =
     (case r of (i, n, t, d) \<Rightarrow>
        (case acc of (cs, sq) \<Rightarrow>
           if i \<in> set (map cat_id cs) \<or> \<not> valid_type t then (cs, sq)
           else (cs @ [seed_row ts r], max sq i)))"

definition table_exists :: "string \<Rightarrow> store \<Rightarrow> bool" where
  "table_exists t st =
     (if t = ''categories'' then categories_tbl st \<noteq> None
      else if t = ''transactions'' then transactions_tbl st \<noteq> None
      else False)"

fun exec_statement :: "string \<Rightarrow> statement \<Rightarrow> store \<Rightarrow> sql_error + store" where
  "exec_statement ts CreateTableCategories st =
     Inr (if categories_tbl st = None then st\<lparr>categories_tbl := Some []\<rparr> else st)"
| "exec_statement ts CreateTableTransactions st =
     Inr (if transactions_tbl st = None then st\<lparr>transactions_tbl := Some []\<rparr> else st)"
| "exec_statement ts (InsertOrIgnoreCategories rows) st =
     (case categories_tbl st of
        None \<Rightarrow> Inl (NoSuchTable ''categories'')
      | Some cs \<Rightarrow>
          (case fold (insert_or_ignore_category ts) rows (cs, categories_seq st) of
             (cs', sq') \<Rightarrow> Inr (st\<lparr>categories_tbl := Some cs', categories_seq := sq'\<rparr>)))"
| "exec_statement ts (CreateIndex n t c) st =
     (if \<not> table_exists t st then Inl (NoSuchTable t)
      else if n \<in> set (map fst (indexes st)) then Inr st
      else Inr (st\<lparr>indexes := indexes st @ [(n, t, c)]\<rparr>))"

text \<open>
  \<open>db.exec\<close> runs the statements in order and stops at the first error; what ran before
  stays. The statement numbered \<open>exec_fails_at\<close> (counting from 0) hits a storage
  error of the environment.
\<close>

fun exec_statements ::
  "string \<Rightarrow> nat option \<Rightarrow> nat \<Rightarrow> statement list \<Rightarrow> store \<Rightarrow> sql_error option \<times> store" where
  "exec_statements ts fl k [] st = (None, st)"
| "exec_statements ts fl k (s # ss) st =
     (if fl = Some k then (Some IoError, st)
      else (case exec_statement ts s st of
              Inl err \<Rightarrow> (Some err, st)
            | Inr st' \<Rightarrow> exec_statements ts fl (Suc k) ss st'))"

section \<open>The connection registry (\<open>DatabaseManager\<close>)\<close>

text \<open>
  A \<open>sqlite3.Database\<close> object: its identity on the JavaScript heap and the file it
  was opened on.
\<close>

record database =
  db_ref :: nat
  db_file :: string

text \<open>
  The state the manager works on: its field \<open>connections\<close>, the allocator of
  object identities, the files under \<open>dbPath\<close> (a database file and its byte copy hold
  the same \<open>store\<close>) and what \<open>console.error\<close> has printed.
\<close>

record world =
  connections :: "string \<rightharpoonup> database"
  next_ref :: nat
  disk :: "string \<rightharpoonup> store"
  console :: "string list"

definition initial_world :: world where
  "initial_world = \<lparr>connections = Map.empty, next_ref = 0, disk = Map.empty, console = []\<rparr>"

definition dbPath :: string where
  "dbPath = ''./databases''"

text \<open>
  \<open>path.join\<close> on a directory and a file name. Node's normalisation of dot segments
  is not modelled: file names are taken to hold no path separator.
\<close>

definition path_join :: "string \<Rightarrow> string \<Rightarrow> string" where
  "path_join d f = d @ ''/'' @ f"

definition getDbFileName :: "nat \<Rightarrow> year_value \<Rightarrow> string" where
  "getDbFileName userId year = ''user_'' @ show_nat userId @ ''_'' @ year_text year @ ''.db''"

definition connection_key :: "nat \<Rightarrow> year_value \<Rightarrow> string" where
  "connection_key userId year = show_nat userId @ ''_'' @ year_text year"

text \<open>
  \<open>new sqlite3.Database(dbFile)\<close>: a new object; the file is created when absent.
\<close>

definition sqlite3_Database :: "string \<Rightarrow> world \<Rightarrow> database \<times> world" where
  "sqlite3_Database dbFile w =
     (\<lparr>db_ref = next_ref w, db_file = dbFile\<rparr>,
      w\<lparr>next_ref := Suc (next_ref w),
        disk := (if disk w dbFile = None then (disk w)(dbFile \<mapsto> empty_store) else disk w)\<rparr>)"

text \<open>The store an open database object works on: the content of its file.\<close>

definition store_at :: "world \<Rightarrow> string \<Rightarrow> store" where
  "store_at w f = (case disk w f of None \<Rightarrow> empty_store | Some st \<Rightarrow> st)"

definition store_of :: "world \<Rightarrow> database \<Rightarrow> store" where
  "store_of w db = store_at w (db_file db)"

definition db_exec :: "env \<Rightarrow> statement list \<Rightarrow> database \<Rightarrow> world \<Rightarrow> sql_error option \<times> world" where
  "db_exec e script db w =
     (case exec_statements (current_timestamp e) (exec_fails_at e) 0 script (store_of w db) of
        (err, st') \<Rightarrow> (err, w\<lparr>disk := (disk w)(db_file db \<mapsto> st')\<rparr>))"

text \<open>The callback of \<open>db.exec\<close> only prints the error.\<close>

definition initializeSchema :: "env \<Rightarrow> database \<Rightarrow> world \<Rightarrow> world" where
  "initializeSchema e db w =
     (case db_exec e schema db w of
        (Some err, w') \<Rightarrow> w'\<lparr>console := console w' @ [''Error initializing database schema:'']\<rparr>
      | (None, w') \<Rightarrow> w')"

definition getConnection :: "env \<Rightarrow> nat \<Rightarrow> year_value \<Rightarrow> world \<Rightarrow> database \<times> world" where
  "getConnection e userId year w =
     (let key = connection_key userId year in
      case connections w key of
        Some db \<Rightarrow> (db, w)
      | None \<Rightarrow>
          (let dbFile = path_join dbPath (getDbFileName userId year) in
           case sqlite3_Database dbFile w of
             (db, w1) \<Rightarrow>
               (let w2 = w1\<lparr>connections := (connections w1)(key \<mapsto> db)\<rparr>
                in (db, initializeSchema e db w2))))"

definition closeConnection :: "nat \<Rightarrow> year_value \<Rightarrow> world \<Rightarrow> world" where
  "closeConnection userId year w =
     (let key = connection_key userId year in
      case connections w key of
        Some db \<Rightarrow> w\<lparr>connections := (connections w)(key := None)\<rparr>
      | None \<Rightarrow> w)"


text \<open>
  \<open>backupDatabase\<close>: \<open>fs.existsSync\<close> then \<open>fs.copyFileSync\<close> to the name built
  from the file name and \<open>Date.now()\<close>.
\<close>

definition backupDatabase :: "env \<Rightarrow> nat \<Rightarrow> year_value \<Rightarrow> world \<Rightarrow> string option \<times> world" where
  "backupDatabase e userId year w =
     (let dbFile = path_join dbPath (getDbFileName userId year);
          backupFile = path_join dbPath
            (''backup_'' @ getDbFileName userId year @ ''_'' @ show_nat (date_now e))
      in case disk w dbFile of
           Some content \<Rightarrow> (Some backupFile, w\<lparr>disk := (disk w)(backupFile \<mapsto> content)\<rparr>)
         | None \<Rightarrow> (None, w))"

section \<open>SQL statements of the routes\<close>

text \<open>
  Each definition is one SQL statement of a route, run on the store of the shard. A
  statement on a table that was never created fails. Ids bound from \<open>req.params\<close> are
  integers (SQLite compares them with the INTEGER key by numeric affinity).
\<close>

definition select_categories_ordered :: "store \<Rightarrow> sql_error + category_row list" where
  "select_categories_ordered st =
     (case categories_tbl st of
        None \<Rightarrow> Inl (NoSuchTable ''categories'')
      | Some cs \<Rightarrow> Inr (sort_key (\<lambda>c. (cat_type c, cat_name c)) cs))"

definition select_category_by_id :: "int \<Rightarrow> store \<Rightarrow> sql_error + category_row option" where
  "select_category_by_id i st =
     (case categories_tbl st of
        None \<Rightarrow> Inl (NoSuchTable ''categories'')
      | Some cs \<Rightarrow> Inr (find (\<lambda>c. cat_id c = i) cs))"


text \<open>
  \<open>UPDATE categories SET name = ?, updated_at = CURRENT_TIMESTAMP WHERE id = ?\<close>,
  giving \<open>changes\<close>.
\<close>

definition update_category_name :: "string \<Rightarrow> string \<Rightarrow> int \<Rightarrow> store \<Rightarrow> sql_error + store \<times> nat" where
  "update_category_name ts n i st =
     (case categories_tbl st of
        None \<Rightarrow> Inl (NoSuchTable ''categories'')
      | Some cs \<Rightarrow>
          Inr (st\<lparr>categories_tbl :=
                    Some (map (\<lambda>c. if cat_id c = i
                                     then c\<lparr>cat_name := n, cat_updated_at := ts\<rparr> else c) cs)\<rparr>,
               length (filter (\<lambda>c. cat_id c = i) cs)))"

definition count_transactions_of_category :: "int \<Rightarrow> store \<Rightarrow> sql_error + nat" where
  "count_transactions_of_category i st =
     (case transactions_tbl st of
        None \<Rightarrow> Inl (NoSuchTable ''transactions'')
      | Some ts \<Rightarrow> Inr (length (filter (\<lambda>t. txn_category_id t = i) ts)))"

definition delete_category :: "int \<Rightarrow> store \<Rightarrow> sql_error + store \<times> nat" where
  "delete_category i st =
     (case categories_tbl st of
        None \<Rightarrow> Inl (NoSuchTable ''categories'')
      | Some cs \<Rightarrow>
          Inr (st\<lparr>categories_tbl := Some (filter (\<lambda>c. cat_id c \<noteq> i) cs)\<rparr>,
               length (filter (\<lambda>c. cat_id c = i) cs)))"




text \<open>\<open>LEFT JOIN categories c ON t.category_id = c.id\<close> (\<open>id\<close> is the primary key).\<close>

definition left_join_category ::
  "category_row list \<Rightarrow> transaction_row \<Rightarrow> transaction_row \<times> category_row option" where
  "left_join_category cs t = (t, find (\<lambda>c. cat_id c = txn_category_id t) cs)"


definition select_transaction_by_id ::
  "int \<Rightarrow> store \<Rightarrow> sql_error + (transaction_row \<times> category_row option) option" where
  "select_transaction_by_id i st =
     (case transactions_tbl st of
        None \<Rightarrow> Inl (NoSuchTable ''transactions'')
      | Some ts \<Rightarrow>
          (case categories_tbl st of
             None \<Rightarrow> Inl (NoSuchTable ''categories'')
           | Some cs \<Rightarrow>
               Inr (map_option (left_join_category cs) (find (\<lambda>t. txn_id t = i) ts))))"



text \<open>
  \<open>INSERT INTO transactions (amount, date, type, category_id, description)\<close>, giving
  \<open>lastID\<close>. The declared foreign key is not enforced (SQLite's default).
\<close>

definition insert_transaction ::
  "string \<Rightarrow> rat \<Rightarrow> string \<Rightarrow> string \<Rightarrow> int \<Rightarrow> string \<Rightarrow> store \<Rightarrow> sql_error + store \<times> int" where
  "insert_transaction ts a d t c descr st =
     (case transactions_tbl st of
        None \<Rightarrow> Inl (NoSuchTable ''transactions'')
      | Some rows \<Rightarrow>
          if \<not> valid_type t then Inl (CheckFailed ''transactions'')
          else (let i = max (transactions_seq st) (max_rowid (map txn_id rows)) + 1
                in Inr (st\<lparr>transactions_tbl :=
                            Some (rows @ [\<lparr>txn_id = i, txn_amount = a, txn_date = d,
                                           txn_type = t, txn_category_id = c,
                                           txn_description = descr, txn_created_at = ts,
                                           txn_updated_at = ts\<rparr>]),
                          transactions_seq := i\<rparr>, i)))"








text \<open>\<open>db.run\<close>: a failing statement changes nothing; otherwise the store is replaced.\<close>

definition db_run ::
  "database \<Rightarrow> world \<Rightarrow> (store \<Rightarrow> sql_error + store \<times> 'a) \<Rightarrow> (sql_error + 'a) \<times> world" where
  "db_run db w stmt =
     (case stmt (store_of w db) of
        Inl err \<Rightarrow> (Inl err, w)
      | Inr (st', r) \<Rightarrow> (Inr r, w\<lparr>disk := (disk w)(db_file db \<mapsto> st')\<rparr>))"

definition console_error :: "string \<Rightarrow> world \<Rightarrow> world" where
  "console_error msg w = w\<lparr>console := console w @ [msg]\<rparr>"

section \<open>The routes\<close>

text \<open>
  A route answers with a status and a body: \<open>Failure\<close> is the body
  \<open>{success: false, message}\<close>, \<open>Success\<close> the body \<open>{success: true, ...}\<close>.
  \<open>Uncaught\<close> is an exception thrown inside a callback. The user id is the one the
  authentication middleware resolved.
\<close>

datatype 'a reply = Failure nat string | Success nat 'a | Uncaught string

record category_json =
  c_id :: int
  c_name :: string
  c_type :: string
  c_isDefault :: bool
  c_createdAt :: string
  c_updatedAt :: string

record transaction_json =
  t_id :: int
  t_amount :: rat
  t_date :: string
  t_type :: string
  t_categoryId :: int
  t_categoryName :: "string option"
  t_description :: string
  t_createdAt :: string
  t_updatedAt :: string



record month_bucket =
  income :: rat
  expenses :: rat


record transaction_body =
  body_amount :: "rat option"
  body_date :: "string option"
  body_type :: "string option"
  body_categoryId :: "int option"
  body_description :: "string option"

record category_body =
  body_name :: "string option"
  body_ctype :: "string option"

definition category_to_json :: "category_row \<Rightarrow> category_json" where
  "category_to_json cat =
     \<lparr>c_id = cat_id cat, c_name = cat_name cat, c_type = cat_type cat,
      c_isDefault = (cat_is_default cat = 1), c_createdAt = cat_created_at cat,
      c_updatedAt = cat_updated_at cat\<rparr>"

definition transaction_to_json :: "transaction_row \<times> category_row option \<Rightarrow> transaction_json" where
  "transaction_to_json tc =
     (case tc of (t, c) \<Rightarrow>
        \<lparr>t_id = txn_id t, t_amount = txn_amount t, t_date = txn_date t, t_type = txn_type t,
         t_categoryId = txn_category_id t, t_categoryName = map_option cat_name c,
         t_description = txn_description t, t_createdAt = txn_created_at t,
         t_updatedAt = txn_updated_at t\<rparr>)"

text \<open>\<open>req.query.year || new Date().getFullYear()\<close>.\<close>

definition year_or_current :: "env \<Rightarrow> string option \<Rightarrow> year_value" where
  "year_or_current e q =
     (case q of
        None \<Rightarrow> YearNum (current_year e)
      | Some s \<Rightarrow> if s = [] then YearNum (current_year e) else YearStr s)"


text \<open>\<open>new Date(date).getFullYear()\<close>.\<close>

definition transaction_year :: "runtime \<Rightarrow> string \<Rightarrow> year_value" where
  "transaction_year rt d = (case js_getFullYear rt d of None \<Rightarrow> YearNaN | Some y \<Rightarrow> YearNum y)"

subsection \<open>Categories\<close>

text \<open>\<open>GET /\<close>: all categories of the shard.\<close>

definition categories_get ::
  "env \<Rightarrow> nat \<Rightarrow> string option \<Rightarrow> world \<Rightarrow> category_json list reply \<times> world" where
  "categories_get e userId qyear w =
     (case getConnection e userId (year_or_current e qyear) w of
        (db, w1) \<Rightarrow>
          (case select_categories_ordered (store_of w1 db) of
             Inl err \<Rightarrow> (Failure 500 ''Failed to fetch categories'',
                          console_error ''Error fetching categories:'' w1)
           | Inr categories \<Rightarrow> (Success 200 (map category_to_json categories), w1)))"


text \<open>\<open>PUT /:id\<close>: rename a category.\<close>

definition categories_put ::
  "env \<Rightarrow> nat \<Rightarrow> string option \<Rightarrow> int \<Rightarrow> category_body \<Rightarrow> world \<Rightarrow> category_json reply \<times> world" where
  "categories_put e userId qyear categoryId body w =
     (case body_name body of
        None \<Rightarrow> (Failure 400 ''Name is required'', w)
      | Some name \<Rightarrow>
          if name = [] then (Failure 400 ''Name is required'', w)
          else
            (case getConnection e userId (year_or_current e qyear) w of
               (db, w1) \<Rightarrow>
                 (case db_run db w1 (update_category_name (current_timestamp e) name categoryId) of
                    (Inl err, w2) \<Rightarrow> (Failure 500 ''Failed to update category'',
                                        console_error ''Error updating category:'' w2)
                  | (Inr changes, w2) \<Rightarrow>
                      if changes = 0 then (Failure 404 ''Category not found'', w2)
                      else
                        (case select_category_by_id categoryId (store_of w2 db) of
                           Inl err \<Rightarrow> (Failure 500 ''Category updated but failed to fetch'',
                                        console_error ''Error fetching updated category:'' w2)
                         | Inr None \<Rightarrow> (Uncaught ''TypeError'', w2)
                         | Inr (Some category) \<Rightarrow>
                             (Success 200 (category_to_json category), w2)))))"

text \<open>\<open>DELETE /:id\<close>: delete a category.\<close>

definition categories_delete ::
  "env \<Rightarrow> nat \<Rightarrow> string option \<Rightarrow> int \<Rightarrow> world \<Rightarrow> string reply \<times> world" where
  "categories_delete e userId qyear categoryId w =
     (case getConnection e userId (year_or_current e qyear) w of
        (db, w1) \<Rightarrow>
          (case select_category_by_id categoryId (store_of w1 db) of
             Inl err \<Rightarrow> (Failure 500 ''Failed to check category'',
                          console_error ''Error checking category:'' w1)
           | Inr None \<Rightarrow> (Failure 404 ''Category not found'', w1)
           | Inr (Some category) \<Rightarrow>
               if cat_is_default category = 1
               then (Failure 400 ''Cannot delete default categories'', w1)
               else
                 (case count_transactions_of_category categoryId (store_of w1 db) of
                    Inl err \<Rightarrow> (Failure 500 ''Failed to check category usage'',
                                 console_error ''Error checking category usage:'' w1)
                  | Inr used \<Rightarrow>
                      if used > 0
                      then (Failure 400 (''Cannot delete category. It is used in '' @
                                          show_nat used @ '' transaction(s)''), w1)
                      else
                        (case db_run db w1 (delete_category categoryId) of
                           (Inl err, w2) \<Rightarrow> (Failure 500 ''Failed to delete category'',
                                               console_error ''Error deleting category:'' w2)
                         | (Inr changes, w2) \<Rightarrow>
                             (Success 200 ''Category deleted successfully'', w2)))))"

subsection \<open>Transactions\<close>



text \<open>\<open>!amount || !date || !type || !categoryId\<close> on the typed body.\<close>

definition required_fields :: "transaction_body \<Rightarrow> (rat \<times> string \<times> string \<times> int) option" where
  "required_fields body =
     (case body_amount body of
        None \<Rightarrow> None
      | Some amount \<Rightarrow>
          (case body_date body of
             None \<Rightarrow> None
           | Some date \<Rightarrow>
               (case body_type body of
                  None \<Rightarrow> None
                | Some type \<Rightarrow>
                    (case body_categoryId body of
                       None \<Rightarrow> None
                     | Some categoryId \<Rightarrow>
                         if amount = 0 \<or> date = [] \<or> type = [] \<or> categoryId = 0 then None
                         else Some (amount, date, type, categoryId)))))"

text \<open>\<open>description || ''\<close>.\<close>

definition description_or_empty :: "string option \<Rightarrow> string" where
  "description_or_empty d = (case d of None \<Rightarrow> [] | Some s \<Rightarrow> s)"

text \<open>\<open>POST /\<close>: add a transaction.\<close>

definition transactions_post ::
  "runtime \<Rightarrow> env \<Rightarrow> nat \<Rightarrow> transaction_body \<Rightarrow> world \<Rightarrow> transaction_json reply \<times> world" where
  "transactions_post rt e userId body w =
     (case required_fields body of
        None \<Rightarrow> (Failure 400 ''Amount, date, type, and category are required'', w)
      | Some (amount, date, type, categoryId) \<Rightarrow>
          if type \<notin> set [''income'', ''expense'']
          then (Failure 400 ''Type must be income or expense'', w)
          else if amount \<le> 0 then (Failure 400 ''Amount must be greater than 0'', w)
          else
            (case getConnection e userId (transaction_year rt date) w of
               (db, w1) \<Rightarrow>
                 (case select_category_by_id categoryId (store_of w1 db) of
                    Inl err \<Rightarrow> (Failure 500 ''Failed to verify category'',
                                 console_error ''Error checking category:'' w1)
                  | Inr None \<Rightarrow> (Failure 400 ''Invalid category'', w1)
                  | Inr (Some category) \<Rightarrow>
                      (case db_run db w1
                              (insert_transaction (current_timestamp e) amount date type
                                 categoryId (description_or_empty (body_description body))) of
                         (Inl err, w2) \<Rightarrow> (Failure 500 ''Failed to create transaction'',
                                             console_error ''Error creating transaction:'' w2)
                       | (Inr lastID, w2) \<Rightarrow>
                           (case select_transaction_by_id lastID (store_of w2 db) of
                              Inl err \<Rightarrow>
                                (Failure 500 ''Transaction created but failed to fetch'',
                                 console_error ''Error fetching created transaction:'' w2)
                            | Inr None \<Rightarrow> (Uncaught ''TypeError'', w2)
                            | Inr (Some transaction) \<Rightarrow>
                                (Success 201 (transaction_to_json transaction), w2))))))"






section \<open>The server as a state machine\<close>




section \<open>Notions used in the statements\<close>

text \<open>
  The schema is present in a store when both tables exist, every seeded id is a row of
  the category table and the four indexes exist.
\<close>

definition schema_present :: "store \<Rightarrow> bool" where
  "schema_present st =
     (case categories_tbl st of
        None \<Rightarrow> False
      | Some cs \<Rightarrow>
          transactions_tbl st \<noteq> None \<and>
          list_all (\<lambda>r. fst r \<in> set (map cat_id cs)) default_categories \<and>
          list_all (\<lambda>n. n \<in> set (map fst (indexes st)))
            [''idx_transactions_date'', ''idx_transactions_type'',
             ''idx_transactions_category'', ''idx_categories_type''])"

text \<open>The transaction rows stored in a file (none when the file or the table is absent).\<close>

definition transaction_rows :: "store \<Rightarrow> transaction_row list" where
  "transaction_rows st = (case transactions_tbl st of None \<Rightarrow> [] | Some rows \<Rightarrow> rows)"

definition category_rows :: "store \<Rightarrow> category_row list" where
  "category_rows st = (case categories_tbl st of None \<Rightarrow> [] | Some rows \<Rightarrow> rows)"

definition transactions_on_disk :: "world \<Rightarrow> string \<Rightarrow> transaction_row list" where
  "transactions_on_disk w f = (case disk w f of None \<Rightarrow> [] | Some st \<Rightarrow> transaction_rows st)"


text \<open>The file of the shard of a user and a year.\<close>

definition shard_file :: "nat \<Rightarrow> year_value \<Rightarrow> string" where
  "shard_file u y = path_join dbPath (getDbFileName u y)"



text \<open>Every cached object was allocated before the next identity to be handed out.\<close>

definition refs_fresh :: "world \<Rightarrow> bool" where
  "refs_fresh w \<longleftrightarrow> (\<forall>k db. connections w k = Some db \<longrightarrow> db_ref db < next_ref w)"


section \<open>A sample shard\<close>

text \<open>
  Concrete inputs at which the theorems below are instantiated: an environment, a
  runtime that agrees with the real library functions on the strings the examples use,
  and a world in which user 7 has the shard of 2024 open, with the seeded categories, two
  categories of the user's own (ids 15 and 16) and a given list of transactions.
\<close>

definition sample_env :: env where
  "sample_env = \<lparr>exec_fails_at = None, current_timestamp = ''2024-06-01 12:00:00'',
     date_now = 1717243200000, current_year = 2024\<rparr>"

definition sample_runtime :: runtime where
  "sample_runtime =
     \<lparr>js_parseInt = (\<lambda>s. if s = ''1'' then Some 1 else if s = ''2'' then Some 2
                          else if s = ''3'' then Some 3 else if s = ''-1'' then Some (- 1)
                          else None),
      js_getFullYear = (\<lambda>d. if take 4 d = ''2024'' then Some 2024 else None),
      sql_strftime_Y = (\<lambda>d. Some (take 4 d)),
      sql_strftime_Ym = (\<lambda>d. Some (take 7 d)),
      sql_date = (\<lambda>d. Some (take 10 d))\<rparr>"

definition sample_db :: database where
  "sample_db = \<lparr>db_ref = 0, db_file = path_join dbPath (getDbFileName 7 (YearNum 2024))\<rparr>"

definition sample_categories :: "category_row list" where
  "sample_categories =
     map (seed_row ''2024-01-01 00:00:00'') default_categories @
     [\<lparr>cat_id = 15, cat_name = ''Gifts'', cat_type = ''expense'', cat_is_default = 0,
       cat_created_at = ''2024-02-01 09:00:00'', cat_updated_at = ''2024-02-01 09:00:00''\<rparr>,
      \<lparr>cat_id = 16, cat_name = ''Travel'', cat_type = ''expense'', cat_is_default = 0,
       cat_created_at = ''2024-02-02 09:00:00'', cat_updated_at = ''2024-02-02 09:00:00''\<rparr>]"

definition sample_transaction :: "int \<Rightarrow> rat \<Rightarrow> string \<Rightarrow> string \<Rightarrow> int \<Rightarrow> transaction_row" where
  "sample_transaction i a d t c =
     \<lparr>txn_id = i, txn_amount = a, txn_date = d, txn_type = t, txn_category_id = c,
      txn_description = [], txn_created_at = ''2024-03-01 08:00:00'',
      txn_updated_at = ''2024-03-01 08:00:00''\<rparr>"

definition sample_store :: "transaction_row list \<Rightarrow> store" where
  "sample_store rows =
     \<lparr>categories_tbl = Some sample_categories, transactions_tbl = Some rows,
      categories_seq = 16, transactions_seq = int (length rows), indexes = []\<rparr>"

definition sample_world :: "transaction_row list \<Rightarrow> world" where
  "sample_world rows =
     \<lparr>connections = [connection_key 7 (YearNum 2024) \<mapsto> sample_db], next_ref = 1,
      disk = [db_file sample_db \<mapsto> sample_store rows], console = []\<rparr>"

section \<open>Properties\<close>

subsection \<open>The schema script\<close>

lemma fold_insert_present:
  "list_all (\<lambda>r. fst r \<in> set (map cat_id cs)) rows \<Longrightarrow>
   fold (insert_or_ignore_category ts) rows (cs, sq) = (cs, sq)"
  by (induction rows) (auto simp add: insert_or_ignore_category_def)

lemma exec_create_categories:
  "\<exists>st'. exec_statement ts CreateTableCategories st = Inr st' \<and>
     categories_tbl st' = Some (category_rows st) \<and>
     transactions_tbl st' = transactions_tbl st \<and>
     categories_seq st' = categories_seq st \<and>
     transactions_seq st' = transactions_seq st \<and> indexes st' = indexes st"
  by (cases "categories_tbl st") (simp_all add: category_rows_def)

lemma exec_create_transactions:
  "\<exists>st'. exec_statement ts CreateTableTransactions st = Inr st' \<and>
     categories_tbl st' = categories_tbl st \<and>
     transactions_tbl st' = Some (transaction_rows st) \<and>
     categories_seq st' = categories_seq st \<and>
     transactions_seq st' = transactions_seq st \<and> indexes st' = indexes st"
  by (cases "transactions_tbl st") (simp_all add: transaction_rows_def)

lemma exec_insert_or_ignore:
  "categories_tbl st = Some cs \<Longrightarrow>
   \<exists>st'. exec_statement ts (InsertOrIgnoreCategories rows) st = Inr st' \<and>
     categories_tbl st' = Some (fst (fold (insert_or_ignore_category ts) rows (cs, categories_seq st))) \<and>
     transactions_tbl st' = transactions_tbl st \<and>
     categories_seq st' = snd (fold (insert_or_ignore_category ts) rows (cs, categories_seq st)) \<and>
     transactions_seq st' = transactions_seq st \<and> indexes st' = indexes st"
  by (simp add: case_prod_beta)

lemma exec_create_index:
  "table_exists t st \<Longrightarrow>
   \<exists>st'. exec_statement ts (CreateIndex n t c) st = Inr st' \<and>
     categories_tbl st' = categories_tbl st \<and>
     transactions_tbl st' = transactions_tbl st \<and>
     categories_seq st' = categories_seq st \<and>
     transactions_seq st' = transactions_seq st \<and>
     set (map fst (indexes st')) = insert n (set (map fst (indexes st)))"
  by auto

lemma exec_statements_step:
  "exec_statement ts s st = Inr st' \<Longrightarrow>
   exec_statements ts None k (s # ss) st = exec_statements ts None (Suc k) ss st'"
  by simp

lemma exec_schema_result:
  "exec_statements ts None 0 schema st = (None, snd (exec_statements ts None 0 schema st)) \<and>
   categories_tbl (snd (exec_statements ts None 0 schema st)) =
     Some (fst (fold (insert_or_ignore_category ts) default_categories
                  (category_rows st, categories_seq st))) \<and>
   categories_seq (snd (exec_statements ts None 0 schema st)) =
     snd (fold (insert_or_ignore_category ts) default_categories
            (category_rows st, categories_seq st)) \<and>
   transactions_tbl (snd (exec_statements ts None 0 schema st)) = Some (transaction_rows st) \<and>
   transactions_seq (snd (exec_statements ts None 0 schema st)) = transactions_seq st \<and>
   set (map fst (indexes (snd (exec_statements ts None 0 schema st)))) =
     insert ''idx_categories_type'' (insert ''idx_transactions_category''
       (insert ''idx_transactions_type'' (insert ''idx_transactions_date''
          (set (map fst (indexes st))))))"
proof -
  obtain s1 where s1: "exec_statement ts CreateTableCategories st = Inr s1"
    "categories_tbl s1 = Some (category_rows st)" "transactions_tbl s1 = transactions_tbl st"
    "categories_seq s1 = categories_seq st" "transactions_seq s1 = transactions_seq st"
    "indexes s1 = indexes st"
    using exec_create_categories [of ts st] by blast
  obtain s2 where s2: "exec_statement ts CreateTableTransactions s1 = Inr s2"
    "categories_tbl s2 = Some (category_rows st)" "transactions_tbl s2 = Some (transaction_rows st)"
    "categories_seq s2 = categories_seq st" "transactions_seq s2 = transactions_seq st"
    "indexes s2 = indexes st"
    using exec_create_transactions [of ts s1] s1 by (auto simp del: exec_statement.simps simp add: transaction_rows_def)
  let ?F = "fold (insert_or_ignore_category ts) default_categories (category_rows st, categories_seq st)"
  obtain s3 where s3: "exec_statement ts (InsertOrIgnoreCategories default_categories) s2 = Inr s3"
    "categories_tbl s3 = Some (fst ?F)" "transactions_tbl s3 = Some (transaction_rows st)"
    "categories_seq s3 = snd ?F" "transactions_seq s3 = transactions_seq st"
    "indexes s3 = indexes st"
    using exec_insert_or_ignore [of s2 "category_rows st" ts default_categories] s2 by (auto simp del: exec_statement.simps)
  have t3: "table_exists ''transactions'' s3" "table_exists ''categories'' s3"
    using s3 by (simp_all add: table_exists_def)
  obtain s4 where s4: "exec_statement ts (CreateIndex ''idx_transactions_date'' ''transactions'' ''date'') s3 = Inr s4"
    "categories_tbl s4 = Some (fst ?F)" "transactions_tbl s4 = Some (transaction_rows st)"
    "categories_seq s4 = snd ?F" "transactions_seq s4 = transactions_seq st"
    "set (map fst (indexes s4)) = insert ''idx_transactions_date'' (set (map fst (indexes st)))"
    using exec_create_index [OF t3(1), of ts "''idx_transactions_date''" "''date''"] s3 by (auto simp del: exec_statement.simps)
  have t4: "table_exists ''transactions'' s4" using s4 by (simp add: table_exists_def)
  obtain s5 where s5: "exec_statement ts (CreateIndex ''idx_transactions_type'' ''transactions'' ''type'') s4 = Inr s5"
    "categories_tbl s5 = Some (fst ?F)" "transactions_tbl s5 = Some (transaction_rows st)"
    "categories_seq s5 = snd ?F" "transactions_seq s5 = transactions_seq st"
    "set (map fst (indexes s5)) = insert ''idx_transactions_type'' (set (map fst (indexes s4)))"
    using exec_create_index [OF t4, of ts "''idx_transactions_type''" "''type''"] s4 by (auto simp del: exec_statement.simps)
  have t5: "table_exists ''transactions'' s5" using s5 by (simp add: table_exists_def)
  obtain s6 where s6: "exec_statement ts (CreateIndex ''idx_transactions_category'' ''transactions'' ''category_id'') s5 = Inr s6"
    "categories_tbl s6 = Some (fst ?F)" "transactions_tbl s6 = Some (transaction_rows st)"
    "categories_seq s6 = snd ?F" "transactions_seq s6 = transactions_seq st"
    "set (map fst (indexes s6)) = insert ''idx_transactions_category'' (set (map fst (indexes s5)))"
    using exec_create_index [OF t5, of ts "''idx_transactions_category''" "''category_id''"] s5 by (auto simp del: exec_statement.simps)
  have t6: "table_exists ''categories'' s6" using s6 by (simp add: table_exists_def)
  obtain s7 where s7: "exec_statement ts (CreateIndex ''idx_categories_type'' ''categories'' ''type'') s6 = Inr s7"
    "categories_tbl s7 = Some (fst ?F)" "transactions_tbl s7 = Some (transaction_rows st)"
    "categories_seq s7 = snd ?F" "transactions_seq s7 = transactions_seq st"
    "set (map fst (indexes s7)) = insert ''idx_categories_type'' (set (map fst (indexes s6)))"
    using exec_create_index [OF t6, of ts "''idx_categories_type''" "''type''"] s6 by (auto simp del: exec_statement.simps)
  have run: "exec_statements ts None 0 schema st = (None, s7)"
    unfolding schema_def
    by (simp add: s1(1) s2(1) s3(1) s4(1) s5(1) s6(1) s7(1) del: exec_statement.simps)
  have idx: "set (map fst (indexes s7)) =
       insert ''idx_categories_type'' (insert ''idx_transactions_category''
         (insert ''idx_transactions_type'' (insert ''idx_transactions_date''
            (set (map fst (indexes st))))))"
    unfolding s7(6) s6(6) s5(6) s4(6) by (rule refl)
  show ?thesis
    unfolding run snd_conv
    by (intro conjI refl s7(2) s7(4) s7(3) s7(5) idx)
qed


lemma getConnection_cached:
  "connections w (connection_key u y) = Some db \<Longrightarrow> getConnection e u y w = (db, w)"
  by (simp add: getConnection_def)

lemma getConnection_new:
  assumes "connections w (connection_key u y) = None"
  shows "getConnection e u y w =
    (\<lparr>db_ref = next_ref w, db_file = path_join dbPath (getDbFileName u y)\<rparr>,
     w\<lparr>connections := (connections w)(connection_key u y \<mapsto>
           \<lparr>db_ref = next_ref w, db_file = path_join dbPath (getDbFileName u y)\<rparr>),
       next_ref := Suc (next_ref w),
       disk := (disk w)(path_join dbPath (getDbFileName u y) \<mapsto>
              snd (exec_statements (current_timestamp e) (exec_fails_at e) 0 schema
                     (store_at w (path_join dbPath (getDbFileName u y))))),
       console := console w @
          (if fst (exec_statements (current_timestamp e) (exec_fails_at e) 0 schema
                     (store_at w (path_join dbPath (getDbFileName u y)))) = None then []
           else [''Error initializing database schema:''])\<rparr>)"
  using assms
  by (auto simp add: getConnection_def sqlite3_Database_def initializeSchema_def db_exec_def
      store_of_def store_at_def Let_def split: prod.splits option.splits)

lemma fold_insert_keeps:
  "set (map cat_id cs) \<subseteq> set (map cat_id (fst (fold (insert_or_ignore_category ts) rows (cs, sq))))"
proof (induction rows arbitrary: cs sq)
  case Nil
  then show ?case by simp
next
  case (Cons r rows)
  obtain i n t d where r: "r = (i, n, t, d)" by (cases r) auto
  show ?case
  proof (cases "i \<in> set (map cat_id cs) \<or> \<not> valid_type t")
    case True
    then show ?thesis using Cons.IH [of cs sq] by (simp add: insert_or_ignore_category_def r)
  next
    case False
    then show ?thesis using Cons.IH [of "cs @ [seed_row ts r]" "max sq i"]
      by (auto simp add: insert_or_ignore_category_def r)
  qed
qed

lemma fold_insert_ids:
  "list_all (\<lambda>r. valid_type (fst (snd (snd r)))) rows \<Longrightarrow>
   list_all (\<lambda>r. fst r \<in> set (map cat_id (fst (fold (insert_or_ignore_category ts) rows (cs, sq))))) rows"
proof (induction rows arbitrary: cs sq)
  case Nil
  then show ?case by simp
next
  case (Cons r rows)
  obtain i n t d where r: "r = (i, n, t, d)" by (cases r) auto
  let ?acc = "insert_or_ignore_category ts r (cs, sq)"
  have step: "i \<in> set (map cat_id (fst ?acc))"
    using Cons.prems by (auto simp add: insert_or_ignore_category_def r seed_row_def)
  have "set (map cat_id (fst ?acc)) \<subseteq>
        set (map cat_id (fst (fold (insert_or_ignore_category ts) rows (fst ?acc, snd ?acc))))"
    by (rule fold_insert_keeps)
  with step have "i \<in> set (map cat_id (fst (fold (insert_or_ignore_category ts) rows ?acc)))"
    by auto
  moreover have "list_all (\<lambda>r. fst r \<in> set (map cat_id (fst (fold (insert_or_ignore_category ts) rows ?acc)))) rows"
    using Cons.IH [of "fst ?acc" "snd ?acc"] Cons.prems by simp
  ultimately show ?case by (simp add: r)
qed

lemma default_types_valid: "list_all (\<lambda>r. valid_type (fst (snd (snd r)))) default_categories"
  by (simp add: default_categories_def valid_type_def)

lemma exec_schema_ok: "fst (exec_statements ts None 0 schema st) = None"
proof -
  have "exec_statements ts None 0 schema st = (None, snd (exec_statements ts None 0 schema st))"
    by (rule exec_schema_result [THEN conjunct1])
  then show ?thesis by (metis fst_conv)
qed

lemma exec_schema_present: "schema_present (snd (exec_statements ts None 0 schema st))"
proof -
  let ?st = "snd (exec_statements ts None 0 schema st)"
  note r = exec_schema_result [of ts st]
  have c: "categories_tbl ?st =
       Some (fst (fold (insert_or_ignore_category ts) default_categories
                    (category_rows st, categories_seq st)))"
    by (rule r [THEN conjunct2, THEN conjunct1])
  have t: "transactions_tbl ?st = Some (transaction_rows st)"
    by (rule r [THEN conjunct2, THEN conjunct2, THEN conjunct2, THEN conjunct1])
  have i: "set (map fst (indexes ?st)) =
       insert ''idx_categories_type'' (insert ''idx_transactions_category''
         (insert ''idx_transactions_type'' (insert ''idx_transactions_date''
            (set (map fst (indexes st))))))"
    by (rule r [THEN conjunct2, THEN conjunct2, THEN conjunct2, THEN conjunct2, THEN conjunct2])
  have "list_all (\<lambda>r. fst r \<in> set (map cat_id (fst (fold (insert_or_ignore_category ts) default_categories
                    (category_rows st, categories_seq st))))) default_categories"
    by (rule fold_insert_ids [OF default_types_valid])
  then show ?thesis
    unfolding schema_present_def c t i by simp
qed

lemma exec_schema_idem:
  assumes "schema_present st"
  shows "exec_statements ts None 0 schema st = (None, st)"
proof -
  from assms obtain cs rows where c: "categories_tbl st = Some cs"
    and t: "transactions_tbl st = Some rows"
    and d: "list_all (\<lambda>r. fst r \<in> set (map cat_id cs)) default_categories"
    and i: "list_all (\<lambda>n. n \<in> set (map fst (indexes st)))
            [''idx_transactions_date'', ''idx_transactions_type'',
             ''idx_transactions_category'', ''idx_categories_type'']"
    by (auto simp add: schema_present_def split: option.splits)
  show ?thesis
    using i by (simp add: schema_def table_exists_def c t fold_insert_present [OF d])
qed


lemma exec_statement_rows:
  "exec_statement ts s st = Inr st' \<Longrightarrow> transaction_rows st' = transaction_rows st"
  by (cases s) (auto simp add: transaction_rows_def split: option.splits prod.splits if_splits)

lemma exec_statements_rows:
  "transaction_rows (snd (exec_statements ts fl k ss st)) = transaction_rows st"
proof (induction ss arbitrary: k st)
  case Nil
  then show ?case by simp
next
  case (Cons s ss)
  then show ?case
    by (auto simp del: exec_statement.simps split: sum.splits dest: exec_statement_rows)
qed


lemma getConnection_caches:
  "getConnection e u y w = (db, w1) \<Longrightarrow> connections w1 (connection_key u y) = Some db"
  by (cases "connections w (connection_key u y)")
     (auto simp add: getConnection_cached getConnection_new)

lemma seeded_summary:
  "map cat_id (map (seed_row ts) default_categories) = [1, 2, 3, 4, 5, 6, 7, 8, 9, 10, 11, 12, 13, 14] \<and>
   list_all (\<lambda>c. cat_is_default c = 1 \<and>
                  cat_type c = (if cat_id c \<le> 7 then ''income'' else ''expense''))
     (map (seed_row ts) default_categories)"
  by (simp add: default_categories_def seed_row_def)

lemma fold_insert_fresh:
  "fold (insert_or_ignore_category ts) default_categories ([], 0) =
   (map (seed_row ts) default_categories, 14)"
  by (simp add: default_categories_def insert_or_ignore_category_def valid_type_def seed_row_def)

text \<open>
  Claim C5. For every user and year, the first \<open>getConnection\<close> on a shard that has no
  store file and no cached connection leaves exactly 14 category rows: ids 1 to 14 in
  order, each with \<open>is_default = 1\<close>, ids 1 to 7 of type income and ids 8 to 14 of type
  expense, and prints no error. Closing the connection and opening it again runs the
  schema script a second time: the store is unchanged (so the count stays 14) and again
  no error is printed.
\<close>

theorem bootstrap_seeds_fourteen:
  assumes closed: "connections w (connection_key u y) = None"
    and fresh: "disk w (path_join dbPath (getDbFileName u y)) = None"
    and ok: "exec_fails_at e = None" and ok': "exec_fails_at e' = None"
    and first: "getConnection e u y w = (db, w1)"
    and again: "getConnection e' u y (closeConnection u y w1) = (db', w2)"
  shows "length (category_rows (store_of w1 db)) = 14 \<and>
         map cat_id (category_rows (store_of w1 db)) =
           [1, 2, 3, 4, 5, 6, 7, 8, 9, 10, 11, 12, 13, 14] \<and>
         list_all (\<lambda>c. cat_is_default c = 1 \<and>
                        cat_type c = (if cat_id c \<le> 7 then ''income'' else ''expense''))
           (category_rows (store_of w1 db)) \<and>
         console w1 = console w \<and>
         store_of w2 db' = store_of w1 db \<and>
         length (category_rows (store_of w2 db')) = 14 \<and>
         console w2 = console w1"
proof -
  let ?f = "path_join dbPath (getDbFileName u y)"
  let ?st = "snd (exec_statements (current_timestamp e) None 0 schema empty_store)"
  have at: "store_at w ?f = empty_store" using fresh by (simp add: store_at_def)
  have db: "db = \<lparr>db_ref = next_ref w, db_file = ?f\<rparr>"
    and w1: "disk w1 ?f = Some ?st" "console w1 = console w"
      "connections w1 = (connections w)(connection_key u y \<mapsto> db)"
    using first unfolding getConnection_new [OF closed] ok at
    by (auto simp add: exec_schema_ok)
  have st1: "store_of w1 db = ?st" using w1(1) db by (simp add: store_of_def store_at_def)
  have cats: "category_rows ?st = map (seed_row (current_timestamp e)) default_categories"
    using exec_schema_result [of "current_timestamp e" empty_store, THEN conjunct2, THEN conjunct1]
    by (simp add: category_rows_def empty_store_def fold_insert_fresh)
  let ?w = "closeConnection u y w1"
  have c2: "connections ?w (connection_key u y) = None"
    by (simp add: closeConnection_def w1(3))
  have d2: "disk ?w = disk w1" "console ?w = console w1"
    by (simp_all add: closeConnection_def w1(3))
  have at2: "store_at ?w ?f = ?st" using w1(1) d2 by (simp add: store_at_def)
  have idem: "exec_statements (current_timestamp e') None 0 schema ?st = (None, ?st)"
    by (rule exec_schema_idem [OF exec_schema_present])
  have db': "db_file db' = ?f" and w2: "disk w2 ?f = Some ?st" "console w2 = console w1"
    using again unfolding getConnection_new [OF c2] ok' at2 idem d2
    by auto
  have st2: "store_of w2 db' = ?st" using w2(1) db' by (simp add: store_of_def store_at_def)
  show ?thesis
    unfolding st1 st2 cats using w1(2) w2(2) seeded_summary
    by (simp add: default_categories_def)
qed

theorem bootstrap_seeds_fourteen_witness:
  "let e = \<lparr>exec_fails_at = None, current_timestamp = ''2024-01-01 00:00:00'',
            date_now = 0, current_year = 2024\<rparr>;
       r1 = getConnection e 7 (YearNum 2024) initial_world;
       r2 = getConnection e 7 (YearNum 2024) (closeConnection 7 (YearNum 2024) (snd r1))
   in connections initial_world (connection_key 7 (YearNum 2024)) = None \<and>
      disk initial_world (path_join dbPath (getDbFileName 7 (YearNum 2024))) = None \<and>
      exec_fails_at e = None \<and>
      length (category_rows (store_of (snd r1) (fst r1))) = 14 \<and>
      store_of (snd r2) (fst r2) = store_of (snd r1) (fst r1) \<and>
      console (snd r2) = []"
proof -
  define e where "e = \<lparr>exec_fails_at = None, current_timestamp = ''2024-01-01 00:00:00'',
            date_now = 0, current_year = 2024\<rparr>"
  define r1 where "r1 = getConnection e 7 (YearNum 2024) initial_world"
  define r2 where "r2 = getConnection e 7 (YearNum 2024) (closeConnection 7 (YearNum 2024) (snd r1))"
  have a: "connections initial_world (connection_key 7 (YearNum 2024)) = None"
    and b: "disk initial_world (path_join dbPath (getDbFileName 7 (YearNum 2024))) = None"
    and c: "exec_fails_at e = None"
    by (simp_all add: initial_world_def e_def)
  have d: "getConnection e 7 (YearNum 2024) initial_world = (fst r1, snd r1)"
    and f: "getConnection e 7 (YearNum 2024) (closeConnection 7 (YearNum 2024) (snd r1)) = (fst r2, snd r2)"
    by (simp_all add: r1_def r2_def)
  note t = bootstrap_seeds_fourteen [OF a b c c d f]
  have "console initial_world = []" by (simp add: initial_world_def)
  with t a b c show ?thesis
    unfolding Let_def e_def [symmetric] r1_def [symmetric] r2_def [symmetric] by simp
qed

lemma exec_fault_first:
  "exec_statements ts (Some 0) 0 (s # ss) st = (Some IoError, st)"
  by simp

lemma getConnection_new_store:
  "connections w (connection_key u y) = None \<Longrightarrow>
   store_of (snd (getConnection e u y w)) (fst (getConnection e u y w)) =
   snd (exec_statements (current_timestamp e) (exec_fails_at e) 0 schema
          (store_at w (path_join dbPath (getDbFileName u y))))"
  by (simp add: getConnection_new store_of_def store_at_def)

lemma getConnection_new_console:
  "connections w (connection_key u y) = None \<Longrightarrow>
   console (snd (getConnection e u y w)) =
   console w @ (if fst (exec_statements (current_timestamp e) (exec_fails_at e) 0 schema
                     (store_at w (path_join dbPath (getDbFileName u y)))) = None then []
                else [''Error initializing database schema:''])"
  by (simp add: getConnection_new)

subsection \<open>The connection registry\<close>




lemma closeConnection_evicts:
  "connections (closeConnection u y w) (connection_key u y) = None"
  by (simp add: closeConnection_def Let_def split: option.splits)

lemma closeConnection_fields:
  "disk (closeConnection u y w) = disk w \<and> next_ref (closeConnection u y w) = next_ref w \<and>
   console (closeConnection u y w) = console w"
  by (simp add: closeConnection_def Let_def split: option.splits)

lemma getConnection_ref_bound:
  assumes "refs_fresh w" "getConnection e u y w = (db, w1)"
  shows "db_ref db < next_ref w1"
proof (cases "connections w (connection_key u y)")
  case None
  then show ?thesis using assms(2) by (auto simp add: getConnection_new)
next
  case (Some d)
  then show ?thesis using assms by (auto simp add: getConnection_cached refs_fresh_def)
qed

text \<open>
  Claim C4. For every user and year, a second \<open>getConnection\<close> with no close in
  between returns the object of the first and changes nothing. After
  \<open>closeConnection\<close> the next \<open>getConnection\<close> returns an object with a new
  identity, caches it, and (when the schema script meets no storage error) the store it
  works on has both tables, the seeded ids and the four indexes.
\<close>

theorem getConnection_same_then_new:
  assumes fresh: "refs_fresh w"
    and first: "getConnection e u y w = (db, w1)"
    and second: "getConnection e' u y w1 = (db1, w1')"
    and ok: "exec_fails_at e'' = None"
    and reopen: "getConnection e'' u y (closeConnection u y w1) = (db2, w2)"
  shows "db1 = db \<and> w1' = w1 \<and>
         db_ref db2 \<noteq> db_ref db \<and>
         connections w2 (connection_key u y) = Some db2 \<and>
         schema_present (store_of w2 db2)"
proof -
  have c: "connections w1 (connection_key u y) = Some db"
    using first by (rule getConnection_caches)
  have same: "db1 = db \<and> w1' = w1"
    using second unfolding getConnection_cached [OF c] by simp
  have bound: "db_ref db < next_ref w1"
    using fresh first by (rule getConnection_ref_bound)
  let ?w = "closeConnection u y w1"
  let ?f = "path_join dbPath (getDbFileName u y)"
  have n: "connections ?w (connection_key u y) = None" by (rule closeConnection_evicts)
  have r: "db_ref db2 = next_ref w1" and f: "db_file db2 = ?f"
    and d: "disk w2 ?f = Some (snd (exec_statements (current_timestamp e'') None 0 schema (store_at ?w ?f)))"
    using reopen unfolding getConnection_new [OF n] ok
    by (auto simp add: closeConnection_fields)
  have "store_of w2 db2 = snd (exec_statements (current_timestamp e'') None 0 schema (store_at ?w ?f))"
    using d f by (simp add: store_of_def store_at_def)
  then have "schema_present (store_of w2 db2)" by (simp add: exec_schema_present)
  moreover have "connections w2 (connection_key u y) = Some db2"
    using reopen by (rule getConnection_caches)
  ultimately show ?thesis using same bound r by simp
qed

theorem getConnection_same_then_new_witness:
  "let e = \<lparr>exec_fails_at = None, current_timestamp = ''2024-01-01 00:00:00'',
            date_now = 0, current_year = 2024\<rparr>;
       r1 = getConnection e 7 (YearNum 2024) initial_world;
       r2 = getConnection e 7 (YearNum 2024) (closeConnection 7 (YearNum 2024) (snd r1))
   in refs_fresh initial_world \<and> exec_fails_at e = None \<and>
      getConnection e 7 (YearNum 2024) (snd r1) = r1 \<and>
      db_ref (fst r2) \<noteq> db_ref (fst r1) \<and>
      connections (snd r2) (connection_key 7 (YearNum 2024)) = Some (fst r2) \<and>
      schema_present (store_of (snd r2) (fst r2))"
proof -
  define e where "e = \<lparr>exec_fails_at = None, current_timestamp = ''2024-01-01 00:00:00'',
            date_now = 0, current_year = 2024\<rparr>"
  define r1 where "r1 = getConnection e 7 (YearNum 2024) initial_world"
  define r1' where "r1' = getConnection e 7 (YearNum 2024) (snd r1)"
  define r2 where "r2 = getConnection e 7 (YearNum 2024) (closeConnection 7 (YearNum 2024) (snd r1))"
  have a: "refs_fresh initial_world" and b: "exec_fails_at e = None"
    by (simp_all add: refs_fresh_def initial_world_def e_def)
  have c: "getConnection e 7 (YearNum 2024) initial_world = (fst r1, snd r1)"
    and c': "getConnection e 7 (YearNum 2024) (snd r1) = (fst r1', snd r1')"
    and d: "getConnection e 7 (YearNum 2024) (closeConnection 7 (YearNum 2024) (snd r1)) = (fst r2, snd r2)"
    by (simp_all add: r1_def r1'_def r2_def)
  note t = getConnection_same_then_new [OF a c c' b d]
  then have "r1' = r1" by (simp add: prod_eq_iff)
  with t a b show ?thesis
    unfolding Let_def e_def [symmetric] r1_def [symmetric] r2_def [symmetric] r1'_def [symmetric]
    by simp
qed

subsection \<open>Rendering of numbers and shard names\<close>

lemma digit_char_inj: "m < 10 \<Longrightarrow> n < 10 \<Longrightarrow> digit_char m = digit_char n \<Longrightarrow> m = n"
proof -
  assume m: "m < 10" and n: "n < 10" and e: "digit_char m = digit_char n"
  have "m \<in> {0,1,2,3,4,5,6,7,8,9}" using m by auto
  moreover have "n \<in> {0,1,2,3,4,5,6,7,8,9}" using n by auto
  ultimately show ?thesis using e by (auto simp add: digit_char_def)
qed

lemma digit_char_not_sep: "n < 10 \<Longrightarrow> digit_char n \<noteq> CHR ''_''"
proof -
  assume n: "n < 10"
  have "n \<in> {0,1,2,3,4,5,6,7,8,9}" using n by auto
  then show ?thesis by (auto simp add: digit_char_def)
qed

lemma show_nat_not_Nil: "show_nat n \<noteq> []"
  by (subst show_nat.simps) simp

lemma show_nat_last: "last (show_nat n) = digit_char (n mod 10)"
  by (subst show_nat.simps) simp

lemma show_nat_butlast: "butlast (show_nat n) = (if n < 10 then [] else show_nat (n div 10))"
  by (subst show_nat.simps) simp

lemma show_nat_inj: "show_nat m = show_nat n \<Longrightarrow> m = n"
proof (induction m arbitrary: n rule: show_nat.induct)
  case (1 m)
  have "last (show_nat m) = last (show_nat n)" using "1.prems" by simp
  then have l: "digit_char (m mod 10) = digit_char (n mod 10)"
    unfolding show_nat_last .
  then have d: "m mod 10 = n mod 10" by (intro digit_char_inj) simp_all
  have "butlast (show_nat m) = butlast (show_nat n)" using "1.prems" by simp
  then have b: "(if m < 10 then [] else show_nat (m div 10)) = (if n < 10 then [] else show_nat (n div 10))"
    unfolding show_nat_butlast .
  show ?case
  proof (cases "m < 10")
    case True
    have "n < 10"
    proof (rule ccontr)
      assume "\<not> n < 10"
      with b True have "show_nat (n div 10) = []" by simp
      then show False by (simp add: show_nat_not_Nil)
    qed
    with True d show ?thesis by simp
  next
    case False
    have n: "\<not> n < 10"
    proof
      assume "n < 10"
      with b False have "show_nat (m div 10) = []" by simp
      then show False by (simp add: show_nat_not_Nil)
    qed
    with b False have e: "show_nat (m div 10) = show_nat (n div 10)" by simp
    from "1.IH" [OF False e] have q: "m div 10 = n div 10" .
    have "m = 10 * (m div 10) + m mod 10" "n = 10 * (n div 10) + n mod 10" by simp_all
    with d q show ?thesis by simp
  qed
qed

lemma show_nat_no_sep: "CHR ''_'' \<notin> set (show_nat n)"
proof (induction n rule: show_nat.induct)
  case (1 n)
  show ?case
  proof (cases "n < 10")
    case True
    then show ?thesis using digit_char_not_sep [of n] by (subst show_nat.simps) auto
  next
    case False
    then show ?thesis using "1.IH" digit_char_not_sep [of "n mod 10"]
      by (subst show_nat.simps) auto
  qed
qed

lemma prefix_before_sep:
  "a @ x # d = a' @ x # d' \<Longrightarrow> x \<notin> set a \<Longrightarrow> x \<notin> set a' \<Longrightarrow> a = a' \<and> d = d'"
proof (induction a arbitrary: a')
  case Nil
  then show ?case by (cases a') auto
next
  case (Cons c a)
  then show ?case by (cases a') auto
qed

lemma suffix_after_sep:
  assumes "a @ x # d = a' @ x # d'" "x \<notin> set d" "x \<notin> set d'"
  shows "d = d' \<and> a = a'"
proof -
  have "rev d @ x # rev a = rev d' @ x # rev a'"
    using arg_cong [OF assms(1), of rev] by simp
  moreover have "x \<notin> set (rev d)" "x \<notin> set (rev d')" using assms by simp_all
  ultimately have "rev d = rev d' \<and> rev a = rev a'" by (rule prefix_before_sep)
  then show ?thesis by simp
qed


subsection \<open>Backup\<close>

lemma backup_name_shape:
  "path_join dbPath (''backup_'' @ getDbFileName u y @ ''_'' @ show_nat t) =
   (dbPath @ ''/backup_'' @ getDbFileName u y) @ CHR ''_'' # show_nat t"
  by (simp add: path_join_def)

lemma backup_name_differs:
  assumes "t \<noteq> t'"
  shows "path_join dbPath (''backup_'' @ getDbFileName u y @ ''_'' @ show_nat t) \<noteq>
         path_join dbPath (''backup_'' @ getDbFileName u' y' @ ''_'' @ show_nat t')"
proof
  assume "path_join dbPath (''backup_'' @ getDbFileName u y @ ''_'' @ show_nat t) =
          path_join dbPath (''backup_'' @ getDbFileName u' y' @ ''_'' @ show_nat t')"
  then have "(dbPath @ ''/backup_'' @ getDbFileName u y) @ CHR ''_'' # show_nat t =
             (dbPath @ ''/backup_'' @ getDbFileName u' y') @ CHR ''_'' # show_nat t'"
    unfolding backup_name_shape .
  then have "show_nat t = show_nat t' \<and>
             dbPath @ ''/backup_'' @ getDbFileName u y = dbPath @ ''/backup_'' @ getDbFileName u' y'"
    by (rule suffix_after_sep) (rule show_nat_no_sep)+
  then have "show_nat t = show_nat t'" by (rule conjunct1)
  then have "t = t'" by (rule show_nat_inj)
  with assms show False by simp
qed

lemma backup_name_not_store:
  "path_join dbPath (''backup_'' @ n) \<noteq> path_join dbPath (getDbFileName u y)"
  by (simp add: path_join_def getDbFileName_def)

lemma backupDatabase_absent:
  "disk w (path_join dbPath (getDbFileName u y)) = None \<Longrightarrow> backupDatabase e u y w = (None, w)"
  by (simp add: backupDatabase_def)

lemma backupDatabase_present:
  "disk w (path_join dbPath (getDbFileName u y)) = Some c \<Longrightarrow>
   backupDatabase e u y w =
     (Some (path_join dbPath (''backup_'' @ getDbFileName u y @ ''_'' @ show_nat (date_now e))),
      w\<lparr>disk := (disk w)(path_join dbPath
             (''backup_'' @ getDbFileName u y @ ''_'' @ show_nat (date_now e)) \<mapsto> c)\<rparr>)"
  by (simp add: backupDatabase_def Let_def)

lemma backupDatabase_name:
  "fst (backupDatabase e u y w) = Some bf \<Longrightarrow>
   bf = path_join dbPath (''backup_'' @ getDbFileName u y @ ''_'' @ show_nat (date_now e))"
  by (cases "disk w (path_join dbPath (getDbFileName u y))")
     (simp_all add: backupDatabase_absent backupDatabase_present)

text \<open>
  Claim C9 as stated fails in its last part. Two backups of the same existing shard
  taken while \<open>Date.now()\<close> reads the same millisecond return the same file name (the
  second copy overwrites the first).
\<close>

theorem backup_same_millisecond_counterexample:
  "let e = \<lparr>exec_fails_at = None, current_timestamp = ''2024-01-01 00:00:00'',
            date_now = 1700000000000, current_year = 2024\<rparr>;
       w0 = snd (getConnection e 7 (YearNum 2024) initial_world);
       r1 = backupDatabase e 7 (YearStr ''2024'') w0;
       r2 = backupDatabase e 7 (YearStr ''2024'') (snd r1)
   in fst r1 \<noteq> None \<and> fst r2 = fst r1"
proof -
  define e where "e = \<lparr>exec_fails_at = None, current_timestamp = ''2024-01-01 00:00:00'',
            date_now = 1700000000000, current_year = 2024\<rparr>"
  define w0 where "w0 = snd (getConnection e 7 (YearNum 2024) initial_world)"
  have n: "getDbFileName 7 (YearStr ''2024'') = getDbFileName 7 (YearNum 2024)"
    by (simp add: getDbFileName_def show_int_def show_nat.simps digit_char_def)
  have c: "connections initial_world (connection_key 7 (YearNum 2024)) = None"
    by (simp add: initial_world_def)
  obtain st where d: "disk w0 (path_join dbPath (getDbFileName 7 (YearStr ''2024''))) = Some st"
    unfolding w0_def n getConnection_new [OF c] by simp
  have r1: "backupDatabase e 7 (YearStr ''2024'') w0 =
     (Some (path_join dbPath (''backup_'' @ getDbFileName 7 (YearStr ''2024'') @ ''_'' @ show_nat (date_now e))),
      w0\<lparr>disk := (disk w0)(path_join dbPath
             (''backup_'' @ getDbFileName 7 (YearStr ''2024'') @ ''_'' @ show_nat (date_now e)) \<mapsto> st)\<rparr>)"
    using d by (rule backupDatabase_present)
  have d1: "disk (snd (backupDatabase e 7 (YearStr ''2024'') w0))
              (path_join dbPath (getDbFileName 7 (YearStr ''2024''))) = Some st"
    unfolding r1 using d backup_name_not_store [of _ 7 "YearStr ''2024''"] by simp
  have r2: "fst (backupDatabase e 7 (YearStr ''2024'') (snd (backupDatabase e 7 (YearStr ''2024'') w0))) =
     Some (path_join dbPath (''backup_'' @ getDbFileName 7 (YearStr ''2024'') @ ''_'' @ show_nat (date_now e)))"
    unfolding backupDatabase_present [OF d1] by simp
  show ?thesis
    unfolding Let_def e_def [symmetric] w0_def [symmetric] r2 unfolding r1 by simp
qed

text \<open>
  Claim C9, amended. For every user and year, \<open>backupDatabase\<close> returns none and leaves
  every file as it was when the shard's store file does not exist. When the file exists
  it copies the whole content to the file named from the store's name and
  \<open>Date.now()\<close>, returns that name and changes no other file, so the store file keeps
  its content. The name differs from the name any call returns whose \<open>Date.now()\<close>
  reading is different.
\<close>

theorem backup_copies_store:
  assumes run: "backupDatabase e u y w = (r, w')"
  shows "(disk w (path_join dbPath (getDbFileName u y)) = None \<longrightarrow> r = None \<and> w' = w) \<and>
         (\<forall>c. disk w (path_join dbPath (getDbFileName u y)) = Some c \<longrightarrow>
            (\<exists>bf. r = Some bf \<and> disk w' = (disk w)(bf \<mapsto> c) \<and>
                   disk w' (path_join dbPath (getDbFileName u y)) = Some c \<and>
                   connections w' = connections w \<and> next_ref w' = next_ref w \<and>
                   console w' = console w)) \<and>
         (\<forall>bf e2 u2 y2 w2 bf2.
            r = Some bf \<longrightarrow> fst (backupDatabase e2 u2 y2 w2) = Some bf2 \<longrightarrow>
            date_now e2 \<noteq> date_now e \<longrightarrow> bf2 \<noteq> bf)"
proof -
  let ?f = "path_join dbPath (getDbFileName u y)"
  let ?bf = "path_join dbPath (''backup_'' @ getDbFileName u y @ ''_'' @ show_nat (date_now e))"
  have absent: "r = None \<and> w' = w" if "disk w ?f = None"
    using run unfolding backupDatabase_absent [OF that] by simp
  have present: "\<exists>bf. r = Some bf \<and> disk w' = (disk w)(bf \<mapsto> c) \<and> disk w' ?f = Some c \<and>
                   connections w' = connections w \<and> next_ref w' = next_ref w \<and>
                   console w' = console w"
    if c: "disk w ?f = Some c" for c
  proof -
    have r: "r = Some ?bf" and w': "w' = w\<lparr>disk := (disk w)(?bf \<mapsto> c)\<rparr>"
      using run unfolding backupDatabase_present [OF c] by simp_all
    have "?bf \<noteq> ?f" by (rule backup_name_not_store)
    then have "disk w' ?f = Some c" unfolding w' using c by simp
    then show ?thesis using r by (intro exI [of _ ?bf]) (simp add: w')
  qed
  have distinct: "bf2 \<noteq> bf"
    if a: "r = Some bf" and b: "fst (backupDatabase e2 u2 y2 w2) = Some bf2"
      and t: "date_now e2 \<noteq> date_now e" for bf e2 u2 y2 w2 bf2
  proof -
    have "fst (backupDatabase e u y w) = Some bf" using run a by simp
    then have 1: "bf = ?bf" by (rule backupDatabase_name)
    have 2: "bf2 = path_join dbPath (''backup_'' @ getDbFileName u2 y2 @ ''_'' @ show_nat (date_now e2))"
      using b by (rule backupDatabase_name)
    show ?thesis unfolding 1 2 using t by (rule backup_name_differs)
  qed
  from absent present distinct show ?thesis by blast
qed


theorem backup_copies_store_witness:
  "let e = \<lparr>exec_fails_at = None, current_timestamp = ''2024-01-01 00:00:00'',
            date_now = 1700000000000, current_year = 2024\<rparr>;
       e2 = \<lparr>exec_fails_at = None, current_timestamp = ''2024-01-01 00:00:00'',
            date_now = 1700000000001, current_year = 2024\<rparr>;
       f = path_join dbPath (getDbFileName 7 (YearNum 2024));
       w0 = snd (getConnection e 7 (YearNum 2024) initial_world);
       r0 = backupDatabase e 7 (YearNum 2024) initial_world;
       r1 = backupDatabase e 7 (YearNum 2024) w0;
       r2 = backupDatabase e2 7 (YearNum 2024) (snd r1)
   in disk initial_world f = None \<and> r0 = (None, initial_world) \<and>
      disk w0 f \<noteq> None \<and> fst r1 \<noteq> None \<and> disk (snd r1) f = disk w0 f \<and>
      date_now e2 \<noteq> date_now e \<and> fst r2 \<noteq> None \<and> fst r2 \<noteq> fst r1"
proof -
  define e where "e = \<lparr>exec_fails_at = None, current_timestamp = ''2024-01-01 00:00:00'',
            date_now = 1700000000000, current_year = 2024\<rparr>"
  define e2 where "e2 = \<lparr>exec_fails_at = None, current_timestamp = ''2024-01-01 00:00:00'',
            date_now = 1700000000001, current_year = 2024\<rparr>"
  define f where "f = path_join dbPath (getDbFileName 7 (YearNum 2024))"
  define w0 where "w0 = snd (getConnection e 7 (YearNum 2024) initial_world)"
  define r0 where "r0 = backupDatabase e 7 (YearNum 2024) initial_world"
  define r1 where "r1 = backupDatabase e 7 (YearNum 2024) w0"
  define r2 where "r2 = backupDatabase e2 7 (YearNum 2024) (snd r1)"
  have t: "date_now e2 \<noteq> date_now e" by (simp add: e_def e2_def)
  have a0: "disk initial_world f = None" by (simp add: initial_world_def)
  have c: "connections initial_world (connection_key 7 (YearNum 2024)) = None"
    by (simp add: initial_world_def)
  obtain st where a1: "disk w0 f = Some st"
    unfolding w0_def f_def getConnection_new [OF c] by simp
  have h0: "backupDatabase e 7 (YearNum 2024) initial_world = (fst r0, snd r0)"
    and h1: "backupDatabase e 7 (YearNum 2024) w0 = (fst r1, snd r1)"
    and h2: "backupDatabase e2 7 (YearNum 2024) (snd r1) = (fst r2, snd r2)"
    by (simp_all add: r0_def r1_def r2_def)
  note t0 = backup_copies_store [OF h0, folded f_def]
  note t1 = backup_copies_store [OF h1, folded f_def]
  note t2 = backup_copies_store [OF h2, folded f_def]
  from t0 a0 have p0: "r0 = (None, initial_world)" by (simp add: prod_eq_iff)
  from t1 a1 obtain bf where p1: "fst r1 = Some bf" "disk (snd r1) f = Some st" by blast
  from t2 p1(2) obtain bf2 where p2: "fst r2 = Some bf2" by blast
  have "fst (backupDatabase e2 7 (YearNum 2024) (snd r1)) = Some bf2"
    using p2 by (simp add: r2_def)
  with t1 p1(1) t have "bf2 \<noteq> bf" by blast
  with a0 p0 a1 p1 p2 t show ?thesis
    unfolding Let_def e_def [symmetric] e2_def [symmetric] f_def [symmetric] w0_def [symmetric]
      r0_def [symmetric] r1_def [symmetric] r2_def [symmetric]
    by simp
qed

subsection \<open>Categories\<close>

lemma getConnection_fresh:
  assumes closed: "connections w (connection_key u y) = None"
    and fresh: "disk w (path_join dbPath (getDbFileName u y)) = None"
    and ok: "exec_fails_at e = None"
    and first: "getConnection e u y w = (db, w1)"
  shows "categories_tbl (store_of w1 db) =
           Some (map (seed_row (current_timestamp e)) default_categories) \<and>
         transactions_tbl (store_of w1 db) = Some [] \<and> console w1 = console w"
proof -
  let ?f = "path_join dbPath (getDbFileName u y)"
  let ?st = "snd (exec_statements (current_timestamp e) None 0 schema empty_store)"
  have at: "store_at w ?f = empty_store" using fresh by (simp add: store_at_def)
  have "store_of (snd (getConnection e u y w)) (fst (getConnection e u y w)) = ?st"
    unfolding getConnection_new_store [OF closed] ok at ..
  then have st1: "store_of w1 db = ?st" by (simp add: first)
  have "console (snd (getConnection e u y w)) = console w"
    unfolding getConnection_new_console [OF closed] ok at by (simp add: exec_schema_ok)
  then have l: "console w1 = console w" by (simp add: first)
  note r = exec_schema_result [of "current_timestamp e" empty_store]
  have "categories_tbl ?st = Some (map (seed_row (current_timestamp e)) default_categories)"
    using r [THEN conjunct2, THEN conjunct1]
    by (simp add: category_rows_def empty_store_def fold_insert_fresh)
  moreover have "transactions_tbl ?st = Some []"
    using r [THEN conjunct2, THEN conjunct2, THEN conjunct2, THEN conjunct1]
    by (simp add: transaction_rows_def empty_store_def)
  ultimately show ?thesis using l unfolding st1 by simp
qed

lemma store_of_db_run:
  "store_of (w\<lparr>disk := (disk w)(db_file db \<mapsto> st)\<rparr>) db = st"
  by (simp add: store_of_def store_at_def)

lemma find_id_None: "find (\<lambda>c. cat_id c = i) cs = None \<longleftrightarrow> i \<notin> set (map cat_id cs)"
  by (induction cs) auto

lemma find_filter_neq: "find (\<lambda>c. cat_id c = i) cs = Some c \<Longrightarrow> filter (\<lambda>c. cat_id c = i) cs \<noteq> []"
  by (induction cs) (auto split: if_splits)

lemma categories_get_cached:
  assumes "connections w (connection_key u (year_or_current e q)) = Some db"
    and "categories_tbl (store_of w db) = Some cs"
  shows "categories_get e u q w =
           (Success 200 (map category_to_json (sort_key (\<lambda>c. (cat_type c, cat_name c)) cs)), w)"
  using assms
  by (simp add: categories_get_def getConnection_cached select_categories_ordered_def)

lemma c_id_to_json: "map c_id (map category_to_json cs) = map cat_id cs"
  by (simp add: category_to_json_def)

text \<open>
  Claim C3. For every category delete in a shard whose tables exist: an id that is not
  in the category table is answered 404 \<open>Category not found\<close>; a row with
  \<open>is_default = 1\<close> is answered 400 \<open>Cannot delete default categories\<close>, whatever
  the transactions are; a row that is not a default and is referenced by N > 0
  transactions of the shard is answered 400 with a message that carries N; in these three
  cases the world is the one \<open>getConnection\<close> returned, so no row is deleted. A row that
  is not a default and is referenced by no transaction is deleted, and every later list
  of the shard's categories succeeds without the id. (The two rejections the spec calls
  Conflict are sent with status 400.)
\<close>

theorem categories_delete_guards:
  assumes conn: "getConnection e u (year_or_current e q) w = (db, w1)"
    and cats: "categories_tbl (store_of w1 db) = Some cs"
    and txns: "transactions_tbl (store_of w1 db) = Some rows"
  shows "(i \<notin> set (map cat_id cs) \<longrightarrow>
            categories_delete e u q i w = (Failure 404 ''Category not found'', w1)) \<and>
         (\<forall>c. find (\<lambda>c. cat_id c = i) cs = Some c \<longrightarrow> cat_is_default c = 1 \<longrightarrow>
            categories_delete e u q i w = (Failure 400 ''Cannot delete default categories'', w1)) \<and>
         (\<forall>c. find (\<lambda>c. cat_id c = i) cs = Some c \<longrightarrow> cat_is_default c \<noteq> 1 \<longrightarrow>
            0 < length (filter (\<lambda>t. txn_category_id t = i) rows) \<longrightarrow>
            categories_delete e u q i w =
              (Failure 400 (''Cannot delete category. It is used in '' @
                             show_nat (length (filter (\<lambda>t. txn_category_id t = i) rows)) @
                             '' transaction(s)''), w1)) \<and>
         (\<forall>c. find (\<lambda>c. cat_id c = i) cs = Some c \<longrightarrow> cat_is_default c \<noteq> 1 \<longrightarrow>
            length (filter (\<lambda>t. txn_category_id t = i) rows) = 0 \<longrightarrow>
            (\<exists>w2. categories_delete e u q i w = (Success 200 ''Category deleted successfully'', w2) \<and>
                  categories_tbl (store_of w2 db) = Some (filter (\<lambda>c. cat_id c \<noteq> i) cs) \<and>
                  (\<forall>e' q'. year_or_current e' q' = year_or_current e q \<longrightarrow>
                     (\<exists>js. categories_get e' u q' w2 = (Success 200 js, w2) \<and>
                           i \<notin> set (map c_id js)))))"
proof -
  let ?find = "find (\<lambda>c. cat_id c = i) cs"
  let ?n = "length (filter (\<lambda>t. txn_category_id t = i) rows)"
  have sel: "select_category_by_id i (store_of w1 db) = Inr ?find"
    by (simp add: select_category_by_id_def cats)
  have cnt: "count_transactions_of_category i (store_of w1 db) = Inr ?n"
    by (simp add: count_transactions_of_category_def txns)
  have absent: "categories_delete e u q i w = (Failure 404 ''Category not found'', w1)"
    if "i \<notin> set (map cat_id cs)"
  proof -
    from that have "?find = None" by (simp add: find_id_None)
    then show ?thesis by (simp add: categories_delete_def conn sel)
  qed
  have dflt: "categories_delete e u q i w = (Failure 400 ''Cannot delete default categories'', w1)"
    if "?find = Some c" "cat_is_default c = 1" for c
    using that by (simp add: categories_delete_def conn sel)
  have used: "categories_delete e u q i w =
              (Failure 400 (''Cannot delete category. It is used in '' @ show_nat ?n @
                             '' transaction(s)''), w1)"
    if "?find = Some c" "cat_is_default c \<noteq> 1" "0 < ?n" for c
    using that by (simp add: categories_delete_def conn sel cnt)
  have unused: "\<exists>w2. categories_delete e u q i w = (Success 200 ''Category deleted successfully'', w2) \<and>
                  categories_tbl (store_of w2 db) = Some (filter (\<lambda>c. cat_id c \<noteq> i) cs) \<and>
                  (\<forall>e' q'. year_or_current e' q' = year_or_current e q \<longrightarrow>
                     (\<exists>js. categories_get e' u q' w2 = (Success 200 js, w2) \<and>
                           i \<notin> set (map c_id js)))"
    if f: "?find = Some c" "cat_is_default c \<noteq> 1" "?n = 0" for c
  proof -
    let ?st = "(store_of w1 db)\<lparr>categories_tbl := Some (filter (\<lambda>c. cat_id c \<noteq> i) cs)\<rparr>"
    let ?w2 = "w1\<lparr>disk := (disk w1)(db_file db \<mapsto> ?st)\<rparr>"
    have run: "db_run db w1 (delete_category i) =
                 (Inr (length (filter (\<lambda>c. cat_id c = i) cs)), ?w2)"
      by (simp add: db_run_def delete_category_def cats)
    have del: "categories_delete e u q i w = (Success 200 ''Category deleted successfully'', ?w2)"
      using f by (simp add: categories_delete_def conn sel cnt run)
    have st2: "store_of ?w2 db = ?st" by (rule store_of_db_run)
    have tbl: "categories_tbl (store_of ?w2 db) = Some (filter (\<lambda>c. cat_id c \<noteq> i) cs)"
      unfolding st2 by simp
    have key: "connections ?w2 (connection_key u (year_or_current e q)) = Some db"
      using getConnection_caches [OF conn] by simp
    have lst: "\<exists>js. categories_get e' u q' ?w2 = (Success 200 js, ?w2) \<and> i \<notin> set (map c_id js)"
      if y: "year_or_current e' q' = year_or_current e q" for e' q'
    proof -
      have k: "connections ?w2 (connection_key u (year_or_current e' q')) = Some db"
        unfolding y by (rule key)
      have "i \<notin> set (map c_id (map category_to_json
              (sort_key (\<lambda>c. (cat_type c, cat_name c)) (filter (\<lambda>c. cat_id c \<noteq> i) cs))))"
        unfolding c_id_to_json by auto
      then show ?thesis
        unfolding categories_get_cached [OF k tbl] by blast
    qed
    from del tbl lst show ?thesis by blast
  qed
  from absent dflt used unused show ?thesis by blast
qed


lemma sample_connection:
  "getConnection e 7 (YearNum 2024) (sample_world rows) = (sample_db, sample_world rows)"
  by (rule getConnection_cached) (simp add: sample_world_def)

lemma sample_year: "year_or_current sample_env None = YearNum 2024"
  by (simp add: year_or_current_def sample_env_def)

lemma sample_store_of: "store_of (sample_world rows) sample_db = sample_store rows"
  by (simp add: store_of_def store_at_def sample_world_def)

lemma sample_tables:
  "categories_tbl (store_of (sample_world rows) sample_db) = Some sample_categories"
  "transactions_tbl (store_of (sample_world rows) sample_db) = Some rows"
  by (simp_all add: sample_store_of sample_store_def)

lemma sample_find_9:
  "find (\<lambda>c. cat_id c = 9) sample_categories =
     Some (seed_row ''2024-01-01 00:00:00'' (9, ''Foods & Treats'', ''expense'', 1))"
  by (simp add: sample_categories_def default_categories_def seed_row_def)

lemma sample_find_15:
  "find (\<lambda>c. cat_id c = 15) sample_categories =
     Some \<lparr>cat_id = 15, cat_name = ''Gifts'', cat_type = ''expense'', cat_is_default = 0,
       cat_created_at = ''2024-02-01 09:00:00'', cat_updated_at = ''2024-02-01 09:00:00''\<rparr>"
  by (simp add: sample_categories_def default_categories_def seed_row_def)

lemma sample_find_16:
  "find (\<lambda>c. cat_id c = 16) sample_categories =
     Some \<lparr>cat_id = 16, cat_name = ''Travel'', cat_type = ''expense'', cat_is_default = 0,
       cat_created_at = ''2024-02-02 09:00:00'', cat_updated_at = ''2024-02-02 09:00:00''\<rparr>"
  by (simp add: sample_categories_def default_categories_def seed_row_def)

lemma sample_ids:
  "map cat_id sample_categories = [1, 2, 3, 4, 5, 6, 7, 8, 9, 10, 11, 12, 13, 14, 15, 16]"
  by (simp add: sample_categories_def default_categories_def seed_row_def)

theorem categories_delete_guards_witness:
  "let w = sample_world [sample_transaction 1 20 ''2024-03-05'' ''expense'' 15]
   in categories_delete sample_env 7 None 99 w = (Failure 404 ''Category not found'', w) \<and>
      categories_delete sample_env 7 None 9 w =
        (Failure 400 ''Cannot delete default categories'', w) \<and>
      categories_delete sample_env 7 None 15 w =
        (Failure 400 ''Cannot delete category. It is used in 1 transaction(s)'', w) \<and>
      fst (categories_delete sample_env 7 None 16 w) =
        Success 200 ''Category deleted successfully'' \<and>
      16 \<notin> set (map cat_id (category_rows
                (store_of (snd (categories_delete sample_env 7 None 16 w)) sample_db)))"
proof -
  define rows where "rows = [sample_transaction 1 20 ''2024-03-05'' ''expense'' 15]"
  define w where "w = sample_world rows"
  have conn: "getConnection sample_env 7 (year_or_current sample_env None) w = (sample_db, w)"
    unfolding sample_year w_def by (rule sample_connection)
  have cats: "categories_tbl (store_of w sample_db) = Some sample_categories"
    and txns: "transactions_tbl (store_of w sample_db) = Some rows"
    unfolding w_def by (rule sample_tables)+
  have n99: "length (filter (\<lambda>t. txn_category_id t = 99) rows) = 0"
    and n15: "length (filter (\<lambda>t. txn_category_id t = 15) rows) = 1"
    and n16: "length (filter (\<lambda>t. txn_category_id t = 16) rows) = 0"
    by (simp_all add: rows_def sample_transaction_def)
  have one: "show_nat (Suc 0) = ''1''" by (simp add: show_nat.simps digit_char_def)
  have a: "categories_delete sample_env 7 None 99 w = (Failure 404 ''Category not found'', w)"
    using categories_delete_guards [OF conn cats txns, of 99, THEN conjunct1]
    by (simp add: sample_ids)
  have b: "categories_delete sample_env 7 None 9 w =
        (Failure 400 ''Cannot delete default categories'', w)"
    using categories_delete_guards [OF conn cats txns, of 9, THEN conjunct2, THEN conjunct1]
    by (simp add: sample_find_9 seed_row_def)
  have c: "categories_delete sample_env 7 None 15 w =
        (Failure 400 ''Cannot delete category. It is used in 1 transaction(s)'', w)"
    using categories_delete_guards [OF conn cats txns, of 15,
        THEN conjunct2, THEN conjunct2, THEN conjunct1]
    by (simp add: sample_find_15 n15 one)
  have "\<exists>w2. categories_delete sample_env 7 None 16 w =
              (Success 200 ''Category deleted successfully'', w2) \<and>
             categories_tbl (store_of w2 sample_db) =
               Some (filter (\<lambda>c. cat_id c \<noteq> 16) sample_categories) \<and>
             (\<forall>e' q'. year_or_current e' q' = year_or_current sample_env None \<longrightarrow>
                     (\<exists>js. categories_get e' 7 q' w2 = (Success 200 js, w2) \<and>
                           16 \<notin> set (map c_id js)))"
    using categories_delete_guards [OF conn cats txns, of 16,
        THEN conjunct2, THEN conjunct2, THEN conjunct2]
    by (simp add: sample_find_16 n16)
  then obtain w2 where d: "categories_delete sample_env 7 None 16 w =
              (Success 200 ''Category deleted successfully'', w2)"
    and d': "categories_tbl (store_of w2 sample_db) =
               Some (filter (\<lambda>c. cat_id c \<noteq> 16) sample_categories)"
    by (elim exE conjE)
  have "16 \<notin> set (map cat_id (category_rows (store_of w2 sample_db)))"
    by (auto simp add: category_rows_def d')
  with a b c d show ?thesis
    unfolding Let_def rows_def [symmetric] w_def [symmetric] by simp
qed


lemma find_map_rename:
  "find (\<lambda>c. cat_id c = i)
     (map (\<lambda>c. if cat_id c = i then c\<lparr>cat_name := n, cat_updated_at := ts\<rparr> else c) cs) =
   map_option (\<lambda>c. c\<lparr>cat_name := n, cat_updated_at := ts\<rparr>) (find (\<lambda>c. cat_id c = i) cs)"
  by (induction cs) auto

text \<open>
  Claim C10. For every category id present in a shard, whatever its \<open>is_default\<close>,
  a rename with a non-empty name succeeds: the answer carries the new name and the
  current timestamp as \<open>updatedAt\<close> and the row's own id, type, default flag and
  \<open>createdAt\<close>; in the table only the rows with that id change, and only in these
  two columns. The transactions are untouched.
\<close>

theorem categories_put_renames_default_too:
  assumes conn: "getConnection e u (year_or_current e q) w = (db, w1)"
    and cats: "categories_tbl (store_of w1 db) = Some cs"
    and row: "find (\<lambda>c. cat_id c = i) cs = Some c"
    and name: "body_name body = Some n" "n \<noteq> []"
  shows "\<exists>w2. categories_put e u q i body w =
                (Success 200
                   \<lparr>c_id = cat_id c, c_name = n, c_type = cat_type c,
                    c_isDefault = (cat_is_default c = 1), c_createdAt = cat_created_at c,
                    c_updatedAt = current_timestamp e\<rparr>, w2) \<and>
              categories_tbl (store_of w2 db) =
                Some (map (\<lambda>r. if cat_id r = i
                                 then r\<lparr>cat_name := n, cat_updated_at := current_timestamp e\<rparr>
                                 else r) cs) \<and>
              transactions_tbl (store_of w2 db) = transactions_tbl (store_of w1 db)"
proof -
  let ?ts = "current_timestamp e"
  let ?cs = "map (\<lambda>r. if cat_id r = i then r\<lparr>cat_name := n, cat_updated_at := ?ts\<rparr> else r) cs"
  let ?st = "(store_of w1 db)\<lparr>categories_tbl := Some ?cs\<rparr>"
  let ?w2 = "w1\<lparr>disk := (disk w1)(db_file db \<mapsto> ?st)\<rparr>"
  have run: "db_run db w1 (update_category_name ?ts n i) =
               (Inr (length (filter (\<lambda>c. cat_id c = i) cs)), ?w2)"
    by (simp add: db_run_def update_category_name_def cats)
  have changes: "length (filter (\<lambda>c. cat_id c = i) cs) \<noteq> 0"
    using find_filter_neq [OF row] by simp
  have st2: "store_of ?w2 db = ?st" by (rule store_of_db_run)
  have sel: "select_category_by_id i (store_of ?w2 db) =
               Inr (Some (c\<lparr>cat_name := n, cat_updated_at := ?ts\<rparr>))"
    unfolding st2 by (simp add: select_category_by_id_def find_map_rename row)
  have "categories_put e u q i body w =
          (Success 200 (category_to_json (c\<lparr>cat_name := n, cat_updated_at := ?ts\<rparr>)), ?w2)"
    using changes by (simp add: categories_put_def name conn run sel)
  moreover have "categories_tbl (store_of ?w2 db) = Some ?cs"
    and "transactions_tbl (store_of ?w2 db) = transactions_tbl (store_of w1 db)"
    unfolding st2 by simp_all
  ultimately show ?thesis
    by (intro exI [of _ ?w2]) (simp add: category_to_json_def)
qed

theorem categories_put_renames_default_too_witness:
  "let w = sample_world [];
       body = \<lparr>body_name = Some ''Groceries'', body_ctype = None\<rparr>
   in find (\<lambda>c. cat_id c = 9) sample_categories =
        Some (seed_row ''2024-01-01 00:00:00'' (9, ''Foods & Treats'', ''expense'', 1)) \<and>
      fst (categories_put sample_env 7 None 9 body w) =
        Success 200
          \<lparr>c_id = 9, c_name = ''Groceries'', c_type = ''expense'', c_isDefault = True,
           c_createdAt = ''2024-01-01 00:00:00'', c_updatedAt = ''2024-06-01 12:00:00''\<rparr>"
proof -
  define w where "w = sample_world []"
  define body where "body = \<lparr>body_name = Some ''Groceries'', body_ctype = None\<rparr>"
  have conn: "getConnection sample_env 7 (year_or_current sample_env None) w = (sample_db, w)"
    unfolding sample_year w_def by (rule sample_connection)
  have cats: "categories_tbl (store_of w sample_db) = Some sample_categories"
    unfolding w_def by (rule sample_tables)
  have name: "body_name body = Some ''Groceries''" "''Groceries'' \<noteq> []"
    by (simp_all add: body_def)
  from categories_put_renames_default_too [OF conn cats sample_find_9 name]
  have "fst (categories_put sample_env 7 None 9 body w) =
        Success 200
          \<lparr>c_id = 9, c_name = ''Groceries'', c_type = ''expense'', c_isDefault = True,
           c_createdAt = ''2024-01-01 00:00:00'', c_updatedAt = ''2024-06-01 12:00:00''\<rparr>"
    by (auto simp add: seed_row_def sample_env_def)
  with sample_find_9 show ?thesis
    unfolding Let_def w_def [symmetric] body_def [symmetric] by simp
qed

subsection \<open>Creating a transaction\<close>

lemma transactions_on_disk_store_at:
  "transactions_on_disk w f = transaction_rows (store_at w f)"
  by (simp add: transactions_on_disk_def store_at_def transaction_rows_def empty_store_def
      split: option.splits)

lemma getConnection_rows:
  "transactions_on_disk (snd (getConnection e u y w)) f = transactions_on_disk w f"
proof (cases "connections w (connection_key u y)")
  case (Some db)
  then show ?thesis by (simp add: getConnection_cached)
next
  case None
  let ?F = "path_join dbPath (getDbFileName u y)"
  show ?thesis
  proof (cases "f = ?F")
    case True
    have "transactions_on_disk (snd (getConnection e u y w)) ?F =
          transaction_rows (snd (exec_statements (current_timestamp e) (exec_fails_at e) 0 schema
                                   (store_at w ?F)))"
      unfolding getConnection_new [OF None] by (simp add: transactions_on_disk_def)
    then show ?thesis
      unfolding True exec_statements_rows transactions_on_disk_store_at .
  next
    case False
    then show ?thesis
      unfolding getConnection_new [OF None] by (simp add: transactions_on_disk_def)
  qed
qed

lemma required_fields_missing:
  "body_amount body = None \<or> body_date body = None \<or> body_type body = None \<or>
   body_categoryId body = None \<Longrightarrow> required_fields body = None"
  by (auto simp add: required_fields_def split: option.splits)

lemma required_fields_present:
  "body_amount body = Some a \<Longrightarrow> body_date body = Some d \<Longrightarrow> body_type body = Some t \<Longrightarrow>
   body_categoryId body = Some c \<Longrightarrow>
   required_fields body = (if a = 0 \<or> d = [] \<or> t = [] \<or> c = 0 then None else Some (a, d, t, c))"
  by (simp add: required_fields_def)

lemma valid_type_set: "t \<in> set [''income'', ''expense''] \<longleftrightarrow> valid_type t"
  by (simp add: valid_type_def)

lemma sample_transaction_year:
  "transaction_year sample_runtime ''2024-03-15'' = YearNum 2024"
  by (simp add: transaction_year_def sample_runtime_def)

lemma transactions_post_invalid_category:
  assumes rf: "required_fields body = Some (a, d, t, c)"
    and good: "valid_type t" and pos: "0 < a"
    and conn: "getConnection e u (transaction_year rt d) w = (db, w1)"
    and cats: "categories_tbl (store_of w1 db) = Some cs"
    and none: "c \<notin> set (map cat_id cs)"
  shows "transactions_post rt e u body w = (Failure 400 ''Invalid category'', w1)"
proof -
  have sel: "select_category_by_id c (store_of w1 db) = Inr None"
    using none by (simp add: select_category_by_id_def cats find_id_None)
  show ?thesis
    using good pos
    by (simp add: transactions_post_def rf valid_type_set conn sel del: set_simps)
qed

lemma sample_fresh_shard:
  assumes conn: "getConnection sample_env 7 (YearNum 2024) initial_world = (db, w1)"
  shows "categories_tbl (store_of w1 db) =
           Some (map (seed_row (current_timestamp sample_env)) default_categories) \<and>
         transactions_tbl (store_of w1 db) = Some [] \<and>
         connections w1 (connection_key 7 (YearNum 2024)) = Some db \<and>
         store_at w1 (shard_file 7 (YearNum 2024)) = store_of w1 db"
proof -
  have closed: "connections initial_world (connection_key 7 (YearNum 2024)) = None"
    and fresh: "disk initial_world (path_join dbPath (getDbFileName 7 (YearNum 2024))) = None"
    and ok: "exec_fails_at sample_env = None"
    by (simp_all add: initial_world_def sample_env_def)
  from getConnection_fresh [OF closed fresh ok conn]
  have cats: "categories_tbl (store_of w1 db) =
                Some (map (seed_row (current_timestamp sample_env)) default_categories)"
    and txns: "transactions_tbl (store_of w1 db) = Some []"
    by simp_all
  have dbf: "db_file db = shard_file 7 (YearNum 2024)"
    using conn unfolding getConnection_new [OF closed] shard_file_def by auto
  have st: "store_at w1 (shard_file 7 (YearNum 2024)) = store_of w1 db"
    unfolding store_of_def dbf ..
  from cats txns getConnection_caches [OF conn] st show ?thesis by (intro conjI)
qed

lemma sample_no_999:
  "999 \<notin> set (map cat_id (map (seed_row ts) default_categories))"
  unfolding seeded_summary [of ts, THEN conjunct1] by simp

lemma initial_world_closed:
  "connections initial_world k = None" "disk initial_world f = None"
  by (simp_all add: initial_world_def)

text \<open>
  Claim C6, amended. For every create request: when amount, date, type or categoryId is
  absent, the type is neither income nor expense, or the amount is at most zero, the
  answer is 400 and the world is untouched: no storage call is made. When the category
  table of the shard of the date's year holds no row with the given categoryId, the
  answer is 400 and in each file the transaction rows are the ones that were there
  before: no row is inserted. This last check runs after \<open>getConnection\<close>: when the
  first three checks pass, the world left behind is the one \<open>getConnection\<close> returned
  for that shard, which for a shard not yet cached has created the file when absent,
  run the schema script and cached the handle. The \<open>INSERT\<close> runs only after all
  checks.
\<close>

theorem transactions_post_rejects:
  "(body_amount body = None \<or> body_date body = None \<or> body_type body = None \<or>
    body_categoryId body = None \<longrightarrow>
      transactions_post rt e u body w =
        (Failure 400 ''Amount, date, type, and category are required'', w)) \<and>
   (\<forall>a d t c.
      body_amount body = Some a \<longrightarrow> body_date body = Some d \<longrightarrow> body_type body = Some t \<longrightarrow>
      body_categoryId body = Some c \<longrightarrow>
        (t \<noteq> ''income'' \<and> t \<noteq> ''expense'' \<longrightarrow>
           (\<exists>m. transactions_post rt e u body w = (Failure 400 m, w))) \<and>
        (a \<le> 0 \<longrightarrow> (\<exists>m. transactions_post rt e u body w = (Failure 400 m, w))) \<and>
        (\<forall>db w1 cs.
           getConnection e u (transaction_year rt d) w = (db, w1) \<longrightarrow>
           categories_tbl (store_of w1 db) = Some cs \<longrightarrow> c \<notin> set (map cat_id cs) \<longrightarrow>
             (\<exists>m w'. transactions_post rt e u body w = (Failure 400 m, w') \<and>
                     (w' = w \<or> w' = w1) \<and>
                     (\<forall>f. transactions_on_disk w' f = transactions_on_disk w f)) \<and>
             ((t = ''income'' \<or> t = ''expense'') \<and> 0 < a \<and> d \<noteq> [] \<and> c \<noteq> 0 \<longrightarrow>
                transactions_post rt e u body w = (Failure 400 ''Invalid category'', w1))))"
proof -
  have missing: "transactions_post rt e u body w =
        (Failure 400 ''Amount, date, type, and category are required'', w)"
    if "body_amount body = None \<or> body_date body = None \<or> body_type body = None \<or>
        body_categoryId body = None"
    by (simp add: transactions_post_def required_fields_missing [OF that])
  have checks: "(t \<noteq> ''income'' \<and> t \<noteq> ''expense'' \<longrightarrow>
           (\<exists>m. transactions_post rt e u body w = (Failure 400 m, w))) \<and>
        (a \<le> 0 \<longrightarrow> (\<exists>m. transactions_post rt e u body w = (Failure 400 m, w))) \<and>
        (\<forall>db w1 cs.
           getConnection e u (transaction_year rt d) w = (db, w1) \<longrightarrow>
           categories_tbl (store_of w1 db) = Some cs \<longrightarrow> c \<notin> set (map cat_id cs) \<longrightarrow>
             (\<exists>m w'. transactions_post rt e u body w = (Failure 400 m, w') \<and>
                     (w' = w \<or> w' = w1) \<and>
                     (\<forall>f. transactions_on_disk w' f = transactions_on_disk w f)) \<and>
             ((t = ''income'' \<or> t = ''expense'') \<and> 0 < a \<and> d \<noteq> [] \<and> c \<noteq> 0 \<longrightarrow>
                transactions_post rt e u body w = (Failure 400 ''Invalid category'', w1)))"
    if f: "body_amount body = Some a" "body_date body = Some d" "body_type body = Some t"
      "body_categoryId body = Some c" for a d t c
  proof (cases "a = 0 \<or> d = [] \<or> t = [] \<or> c = 0")
    case True
    then have "required_fields body = None"
      unfolding required_fields_present [OF f] by simp
    then have p: "transactions_post rt e u body w =
        (Failure 400 ''Amount, date, type, and category are required'', w)"
      by (simp add: transactions_post_def)
    have n: "\<not> ((t = ''income'' \<or> t = ''expense'') \<and> 0 < a \<and> d \<noteq> [] \<and> c \<noteq> 0)"
      using True by auto
    show ?thesis unfolding p using n by simp
  next
    case False
    then have r: "required_fields body = Some (a, d, t, c)"
      unfolding required_fields_present [OF f] by simp
    show ?thesis
    proof (cases "valid_type t")
      case bad: False
      then have p: "transactions_post rt e u body w = (Failure 400 ''Type must be income or expense'', w)"
        by (simp add: transactions_post_def r valid_type_set del: set_simps)
      have n: "\<not> (t = ''income'' \<or> t = ''expense'')" using bad by (simp add: valid_type_def)
      show ?thesis unfolding p using n by simp
    next
      case good: True
      then have vt: "t = ''income'' \<or> t = ''expense''" by (simp add: valid_type_def)
      show ?thesis
      proof (cases "a \<le> 0")
        case True
        then have p: "transactions_post rt e u body w = (Failure 400 ''Amount must be greater than 0'', w)"
          using good by (simp add: transactions_post_def r valid_type_set del: set_simps)
        have n: "\<not> 0 < a" using True by simp
        show ?thesis unfolding p using n by simp
      next
        case pos: False
        have cat: "(\<exists>m w'. transactions_post rt e u body w = (Failure 400 m, w') \<and>
                     (w' = w \<or> w' = w1) \<and>
                     (\<forall>f. transactions_on_disk w' f = transactions_on_disk w f)) \<and>
             ((t = ''income'' \<or> t = ''expense'') \<and> 0 < a \<and> d \<noteq> [] \<and> c \<noteq> 0 \<longrightarrow>
                transactions_post rt e u body w = (Failure 400 ''Invalid category'', w1))"
          if conn: "getConnection e u (transaction_year rt d) w = (db, w1)"
            and cats: "categories_tbl (store_of w1 db) = Some cs"
            and none: "c \<notin> set (map cat_id cs)" for db w1 cs
        proof -
          have lt: "0 < a" using pos by simp
          have post: "transactions_post rt e u body w = (Failure 400 ''Invalid category'', w1)"
            using r good lt conn cats none by (rule transactions_post_invalid_category)
          have "transactions_on_disk w1 f = transactions_on_disk w f" for f
            using getConnection_rows [of e u "transaction_year rt d" w f] by (simp add: conn)
          with post show ?thesis by simp
        qed
        from vt pos cat show ?thesis by blast
      qed
    qed
  qed
  from missing checks show ?thesis by blast
qed

text \<open>
  Claim C6 as stated fails in its last part. A create whose fields pass the first three
  checks reaches \<open>getConnection\<close> before the category is looked up: on a server that
  has never opened the shard of 2024, a request with the unknown category 999 is answered
  400, and by then the file of the shard exists, holds the fourteen seeded categories and
  its handle is cached. No transaction row is in it.
\<close>

theorem transactions_post_opens_shard_counterexample:
  "let body = \<lparr>body_amount = Some 100, body_date = Some ''2024-03-15'',
               body_type = Some ''expense'', body_categoryId = Some 999,
               body_description = None\<rparr>;
       res = transactions_post sample_runtime sample_env 7 body initial_world
   in fst res = Failure 400 ''Invalid category'' \<and>
      connections initial_world (connection_key 7 (YearNum 2024)) = None \<and>
      disk initial_world (shard_file 7 (YearNum 2024)) = None \<and>
      connections (snd res) (connection_key 7 (YearNum 2024)) \<noteq> None \<and>
      map cat_id (category_rows (store_at (snd res) (shard_file 7 (YearNum 2024)))) =
        [1, 2, 3, 4, 5, 6, 7, 8, 9, 10, 11, 12, 13, 14] \<and>
      transaction_rows (store_at (snd res) (shard_file 7 (YearNum 2024))) = [] \<and>
      snd res \<noteq> initial_world"
proof -
  define body where "body = \<lparr>body_amount = Some 100, body_date = Some ''2024-03-15'',
               body_type = Some ''expense'', body_categoryId = Some 999,
               body_description = None\<rparr>"
  define db where "db = fst (getConnection sample_env 7 (YearNum 2024) initial_world)"
  define w1 where "w1 = snd (getConnection sample_env 7 (YearNum 2024) initial_world)"
  have conn: "getConnection sample_env 7 (YearNum 2024) initial_world = (db, w1)"
    by (simp add: db_def w1_def)
  note fresh = sample_fresh_shard [OF conn]
  have rf: "required_fields body = Some (100, ''2024-03-15'', ''expense'', 999)"
    by (simp add: required_fields_def body_def)
  have conn': "getConnection sample_env 7 (transaction_year sample_runtime ''2024-03-15'')
                 initial_world = (db, w1)"
    unfolding sample_transaction_year by (rule conn)
  have post: "transactions_post sample_runtime sample_env 7 body initial_world =
                (Failure 400 ''Invalid category'', w1)"
    by (rule transactions_post_invalid_category [OF rf _ _ conn' fresh [THEN conjunct1]
          sample_no_999]) (simp_all add: valid_type_def)
  have cached: "connections w1 (connection_key 7 (YearNum 2024)) \<noteq> None"
    using fresh by simp
  have ids: "map cat_id (category_rows (store_at w1 (shard_file 7 (YearNum 2024)))) =
        [1, 2, 3, 4, 5, 6, 7, 8, 9, 10, 11, 12, 13, 14]"
    using fresh seeded_summary [of "current_timestamp sample_env", THEN conjunct1]
    by (simp add: category_rows_def)
  have rows: "transaction_rows (store_at w1 (shard_file 7 (YearNum 2024))) = []"
    using fresh by (simp add: transaction_rows_def)
  have ne: "w1 \<noteq> initial_world"
    using cached initial_world_closed(1) by auto
  show ?thesis
    unfolding Let_def body_def [symmetric] post
    using cached ids rows ne by (simp add: initial_world_closed)
qed

theorem transactions_post_rejects_witness:
  "let w = sample_world [];
       b = \<lparr>body_amount = Some 100, body_date = Some ''2024-03-15'',
            body_type = Some ''expense'', body_categoryId = Some 9, body_description = None\<rparr>
   in transactions_post sample_runtime sample_env 7 (b\<lparr>body_amount := None\<rparr>) w =
        (Failure 400 ''Amount, date, type, and category are required'', w) \<and>
      (\<exists>m. transactions_post sample_runtime sample_env 7 (b\<lparr>body_type := Some ''transfer''\<rparr>) w =
             (Failure 400 m, w)) \<and>
      (\<exists>m. transactions_post sample_runtime sample_env 7 (b\<lparr>body_amount := Some (- 5)\<rparr>) w =
             (Failure 400 m, w)) \<and>
      (\<exists>m. transactions_post sample_runtime sample_env 7 (b\<lparr>body_amount := Some 0\<rparr>) w =
             (Failure 400 m, w)) \<and>
      999 \<notin> set (map cat_id sample_categories) \<and>
      transactions_post sample_runtime sample_env 7 (b\<lparr>body_categoryId := Some 999\<rparr>) w =
        (Failure 400 ''Invalid category'', w) \<and>
      transactions_post sample_runtime sample_env 7 (b\<lparr>body_categoryId := Some 999\<rparr>)
          initial_world =
        (Failure 400 ''Invalid category'',
         snd (getConnection sample_env 7 (YearNum 2024) initial_world))"
proof -
  define w where "w = sample_world []"
  define b where "b = \<lparr>body_amount = Some 100, body_date = Some ''2024-03-15'',
            body_type = Some ''expense'', body_categoryId = Some 9, body_description = None\<rparr>"
  define db where "db = fst (getConnection sample_env 7 (YearNum 2024) initial_world)"
  define w1 where "w1 = snd (getConnection sample_env 7 (YearNum 2024) initial_world)"
  have conn: "getConnection sample_env 7 (transaction_year sample_runtime ''2024-03-15'') w =
                (sample_db, w)"
    unfolding sample_transaction_year w_def by (rule sample_connection)
  have cats: "categories_tbl (store_of w sample_db) = Some sample_categories"
    unfolding w_def by (rule sample_tables)
  have no999: "999 \<notin> set (map cat_id sample_categories)"
    unfolding sample_ids by simp
  have conn0: "getConnection sample_env 7 (YearNum 2024) initial_world = (db, w1)"
    by (simp add: db_def w1_def)
  have conn1: "getConnection sample_env 7 (transaction_year sample_runtime ''2024-03-15'')
                 initial_world = (db, w1)"
    unfolding sample_transaction_year by (rule conn0)
  note fresh = sample_fresh_shard [OF conn0]
  have 1: "transactions_post sample_runtime sample_env 7 (b\<lparr>body_amount := None\<rparr>) w =
        (Failure 400 ''Amount, date, type, and category are required'', w)"
    using transactions_post_rejects [of "b\<lparr>body_amount := None\<rparr>" sample_runtime sample_env 7 w,
        THEN conjunct1]
    by simp
  have 2: "\<exists>m. transactions_post sample_runtime sample_env 7 (b\<lparr>body_type := Some ''transfer''\<rparr>) w =
             (Failure 400 m, w)"
    using transactions_post_rejects [of "b\<lparr>body_type := Some ''transfer''\<rparr>" sample_runtime sample_env 7 w,
        THEN conjunct2, rule_format, of 100 "''2024-03-15''" "''transfer''" 9, THEN conjunct1]
    by (simp add: b_def)
  have 3: "\<exists>m. transactions_post sample_runtime sample_env 7 (b\<lparr>body_amount := Some (- 5)\<rparr>) w =
             (Failure 400 m, w)"
    using transactions_post_rejects [of "b\<lparr>body_amount := Some (- 5)\<rparr>" sample_runtime sample_env 7 w,
        THEN conjunct2, rule_format, of "- 5" "''2024-03-15''" "''expense''" 9,
        THEN conjunct2, THEN conjunct1]
    by (simp add: b_def)
  have 4: "\<exists>m. transactions_post sample_runtime sample_env 7 (b\<lparr>body_amount := Some 0\<rparr>) w =
             (Failure 400 m, w)"
    using transactions_post_rejects [of "b\<lparr>body_amount := Some 0\<rparr>" sample_runtime sample_env 7 w,
        THEN conjunct2, rule_format, of 0 "''2024-03-15''" "''expense''" 9,
        THEN conjunct2, THEN conjunct1]
    by (simp add: b_def)
  have 5: "transactions_post sample_runtime sample_env 7 (b\<lparr>body_categoryId := Some 999\<rparr>) w =
             (Failure 400 ''Invalid category'', w)"
    using transactions_post_rejects [of "b\<lparr>body_categoryId := Some 999\<rparr>" sample_runtime sample_env 7 w,
        THEN conjunct2, rule_format, of 100 "''2024-03-15''" "''expense''" 999,
        THEN conjunct2, THEN conjunct2, rule_format, OF _ _ _ _ conn cats no999, THEN conjunct2]
    by (simp add: b_def)
  have 6: "transactions_post sample_runtime sample_env 7 (b\<lparr>body_categoryId := Some 999\<rparr>)
             initial_world = (Failure 400 ''Invalid category'', w1)"
    using transactions_post_rejects [of "b\<lparr>body_categoryId := Some 999\<rparr>" sample_runtime sample_env 7
        initial_world,
        THEN conjunct2, rule_format, of 100 "''2024-03-15''" "''expense''" 999,
        THEN conjunct2, THEN conjunct2, rule_format, OF _ _ _ _ conn1 fresh [THEN conjunct1]
        sample_no_999, THEN conjunct2]
    by (simp add: b_def)
  from 1 2 3 4 5 6 no999 show ?thesis
    unfolding Let_def w_def [symmetric] b_def [symmetric] w1_def [symmetric] by simp
qed

subsection \<open>Listing transactions\<close>












subsection \<open>Statistics\<close>




lemma income_not_expense: "''income'' \<noteq> ''expense''"
  by simp











subsection \<open>Transactions and the year of their shard\<close>






























































end
